theory Spec2Isabelle
  imports Complex_Main "HOL-Library.AList"
begin

section \<open>CalcPlot: chart registry and renderer adapter\<close>

text \<open>
  A shallow embedding of \<^verbatim>\<open>src/components/CalcPlot.jsx\<close>.

  The coordinates and prices the factories compute are modelled over the real numbers,
  with \<open>Math.sin\<close>, \<open>Math.cos\<close>, \<open>Math.exp\<close>, \<open>Math.log\<close>, \<open>Math.sqrt\<close> and
  \<open>Math.PI\<close> as \<open>sin\<close>, \<open>cos\<close>, \<open>exp\<close>, \<open>ln\<close>, \<open>sqrt\<close> and \<open>pi\<close>: for them rounding
  is not part of the model, and what is proved of the charts is the shape of
  their arrays, which rounding does not change, and bounds whose margins are far above
  rounding error. \<open>linspace\<close> itself is also modelled in binary64 arithmetic, rounding
  included. Array lengths and indices are natural numbers.
\<close>

subsection \<open>Math helpers\<close>

text \<open>
  \<^verbatim>\<open>Array.from({ length: n }, (_, i) => start + (end - start) * i / (n - 1))\<close> read in
  exact arithmetic: the array has the length the engine computes, its elements are
  those of the engine without the rounding. The factories take their coordinates from
  it.
\<close>

definition linspace_exact :: "real \<Rightarrow> real \<Rightarrow> nat \<Rightarrow> real list" where
  "linspace_exact start end n = map (\<lambda>i. start + (end - start) * real i / (real n - 1)) [0..<n]"

definition meshgrid :: "real list \<Rightarrow> real list \<Rightarrow> real list list \<times> real list list" where
  "meshgrid xArr yArr =
     (map (\<lambda>_. xArr) yArr, map (\<lambda>y. replicate (length xArr) y) yArr)"

text \<open>Standard normal CDF (Abramowitz and Stegun approximation).\<close>

definition normCDF :: "real \<Rightarrow> real" where
  "normCDF x =
     (let t = 1 / (1 + 0.2316419 * \<bar>x\<bar>);
          d = 0.3989422820 * exp (- x * x / 2);
          p = d * t * (0.3193815300 + t * (- 0.3565637820 + t * (1.7814779370
                + t * (- 1.8212559780 + t * 1.3302744290))))
      in if x > 0 then 1 - p else p)"

text \<open>
  \<open>Math.atan2 y x\<close> on the reals (signed zeros are not modelled: \<open>atan2 0 0 = 0\<close>).
\<close>

definition atan2 :: "real \<Rightarrow> real \<Rightarrow> real" where
  "atan2 y x =
     (if x > 0 then arctan (y / x)
      else if x < 0 \<and> y \<ge> 0 then arctan (y / x) + pi
      else if x < 0 \<and> y < 0 then arctan (y / x) - pi
      else if y > 0 then pi / 2
      else if y < 0 then - pi / 2
      else 0)"

subsection \<open>Double-precision arithmetic\<close>

text \<open>
  A JavaScript number is a finite binary64 value, an infinity or NaN. The two zeros are
  identified (\<^verbatim>\<open>===\<close> does not tell them apart), and a zero divisor counts as \<open>+0\<close>.
  Every operation on finite values returns the exact result rounded to the nearest
  binary64 value, ties to the even significand: \<open>ulp x\<close> is the spacing of the binary64
  values around \<open>x\<close> (that of the subnormals below \<open>2\<^sup>-\<^sup>1\<^sup>0\<^sup>2\<^sup>2\<close>), and a result that rounds
  to \<open>2\<^sup>1\<^sup>0\<^sup>2\<^sup>4\<close> or beyond is an infinity.
\<close>

datatype number = Fin real | PInf | NInf | NaN

definition round_even :: "real \<Rightarrow> int" where
  "round_even y =
     (let f = \<lfloor>y\<rfloor>; r = y - of_int f
      in if r < 1 / 2 then f else if r > 1 / 2 then f + 1 else if even f then f else f + 1)"

definition ulp :: "real \<Rightarrow> real" where
  "ulp x = 2 powr (of_int (max \<lfloor>log 2 x\<rfloor> (- 1022)) - 52)"

text \<open>Rounding a positive real.\<close>

definition flp :: "real \<Rightarrow> number" where
  "flp x =
     (let r = ulp x * of_int (round_even (x / ulp x))
      in if r \<ge> 2 ^ 1024 then PInf else Fin r)"

fun neg :: "number \<Rightarrow> number" where
  "neg (Fin x) = Fin (- x)"
| "neg PInf = NInf"
| "neg NInf = PInf"
| "neg NaN = NaN"

definition fl :: "real \<Rightarrow> number" where
  "fl x = (if x = 0 then Fin 0 else if x < 0 then neg (flp (- x)) else flp x)"

fun num_add :: "number \<Rightarrow> number \<Rightarrow> number" where
  "num_add (Fin x) (Fin y) = fl (x + y)"
| "num_add NaN b = NaN"
| "num_add a NaN = NaN"
| "num_add PInf NInf = NaN"
| "num_add NInf PInf = NaN"
| "num_add PInf b = PInf"
| "num_add a PInf = PInf"
| "num_add NInf b = NInf"
| "num_add a NInf = NInf"

definition num_sub :: "number \<Rightarrow> number \<Rightarrow> number" where
  "num_sub a b = num_add a (neg b)"

fun num_mul :: "number \<Rightarrow> number \<Rightarrow> number" where
  "num_mul (Fin x) (Fin y) = fl (x * y)"
| "num_mul NaN b = NaN"
| "num_mul a NaN = NaN"
| "num_mul (Fin x) b = (if x = 0 then NaN else if x > 0 then b else neg b)"
| "num_mul a (Fin y) = (if y = 0 then NaN else if y > 0 then a else neg a)"
| "num_mul PInf b = b"
| "num_mul NInf b = neg b"

fun num_div :: "number \<Rightarrow> number \<Rightarrow> number" where
  "num_div (Fin x) (Fin y) =
     (if y = 0 then (if x = 0 then NaN else if x > 0 then PInf else NInf) else fl (x / y))"
| "num_div NaN b = NaN"
| "num_div a NaN = NaN"
| "num_div (Fin x) b = Fin 0"
| "num_div a (Fin y) = (if y \<ge> 0 then a else neg a)"
| "num_div a b = NaN"

text \<open>An array index or length as a number.\<close>

definition to_number :: "nat \<Rightarrow> number" where
  "to_number k = fl (real k)"

text \<open>\<^verbatim>\<open>Math.PI\<close>: the binary64 value nearest to \<open>pi\<close>, 3.141592653589793.\<close>

definition Math_PI :: real where
  "Math_PI = 884279719003555 / 2 ^ 48"

text \<open>The exceptions that occur.\<close>

datatype error = TypeError | RangeError

text \<open>
  \<^verbatim>\<open>linspace\<close> as the engine computes it. \<^verbatim>\<open>Array.from\<close> throws for a length of \<open>2\<^sup>3\<^sup>2\<close>
  or more. For \<open>n = 1\<close> the one element is \<open>0 / 0\<close>, that is NaN, added to \<open>start\<close>.
\<close>

definition linspace :: "number \<Rightarrow> number \<Rightarrow> nat \<Rightarrow> error + number list" where
  "linspace start end n =
     (if 2 ^ 32 \<le> n then Inl RangeError
      else Inr (map (\<lambda>i. num_add start
                   (num_div (num_mul (num_sub end start) (to_number i))
                            (num_sub (to_number n) (Fin 1))))
                 [0..<n]))"

subsection \<open>Plot descriptors as JavaScript values\<close>

text \<open>
  The producers return object literals. An object is the list of its properties in
  insertion order, an array the list of its elements; a property that is absent reads
  as \<open>undefined\<close>, modelled by \<open>None\<close>. In string literals, characters outside
  printable ASCII and the apostrophe are written \<^verbatim>\<open><U+hhhh>\<close> after their code point.
\<close>

datatype json =
    JNull
  | JBool bool
  | JNum real
  | JStr string
  | JArr "json list"
  | JObj "(string \<times> json) list"

definition nums :: "real list \<Rightarrow> json" where
  "nums xs = JArr (map JNum xs)"

definition grid :: "real list list \<Rightarrow> json" where
  "grid rows = JArr (map nums rows)"

text \<open>Property read \<open>o.k\<close> on a value that is an object literal (own properties only).\<close>

fun field :: "string \<Rightarrow> json \<Rightarrow> json option" where
  "field k (JObj ps) = map_of ps k"
| "field k _ = None"

subsection \<open>Box mesh3d (for Riemann bars)\<close>

definition boxMesh ::
  "real \<Rightarrow> real \<Rightarrow> real \<Rightarrow> real \<Rightarrow> real \<Rightarrow> real \<Rightarrow> string \<Rightarrow> json" where
  "boxMesh x0 x1 y0 y1 z0 z1 color = JObj [
     (''type'', JStr ''mesh3d''),
     (''x'', nums [x0, x1, x1, x0, x0, x1, x1, x0]),
     (''y'', nums [y0, y0, y1, y1, y0, y0, y1, y1]),
     (''z'', nums [z0, z0, z0, z0, z1, z1, z1, z1]),
     (''i'', nums [0, 0, 4, 4, 0, 0, 1, 1, 2, 2, 3, 3]),
     (''j'', nums [1, 2, 5, 6, 1, 5, 2, 6, 3, 7, 0, 4]),
     (''k'', nums [2, 3, 6, 7, 5, 4, 6, 5, 7, 6, 4, 7]),
     (''color'', JStr color),
     (''opacity'', JNum 0.78),
     (''showscale'', JBool False),
     (''hoverinfo'', JStr ''none'')]"

definition VIRIDIS8 :: "string list" where
  "VIRIDIS8 = [''#440154'', ''#3b528b'', ''#21918c'', ''#5ec962'',
               ''#fde725'', ''#31688e'', ''#35b779'', ''#90d743'']"

subsection \<open>Chart data factories\<close>

text \<open>Small object literals that recur in the factories.\<close>

definition axis :: "string \<Rightarrow> json" where
  "axis t = JObj [(''title'', JStr t)]"

definition scene_xyz :: "string \<Rightarrow> string \<Rightarrow> string \<Rightarrow> json" where
  "scene_xyz a b c = JObj [(''xaxis'', axis a), (''yaxis'', axis b), (''zaxis'', axis c)]"

definition line_style :: "string \<Rightarrow> real \<Rightarrow> json" where
  "line_style c w = JObj [(''color'', JStr c), (''width'', JNum w)]"

definition dash_line :: "string \<Rightarrow> real \<Rightarrow> json" where
  "dash_line c w = JObj [(''color'', JStr c), (''width'', JNum w), (''dash'', JStr ''dash'')]"

definition marker :: "string \<Rightarrow> real \<Rightarrow> json" where
  "marker c sz = JObj [(''color'', JStr c), (''size'', JNum sz)]"

definition flat_scale :: "string \<Rightarrow> json" where
  "flat_scale c = JArr [JArr [JNum 0, JStr c], JArr [JNum 1, JStr c]]"

definition domain :: "real \<Rightarrow> real \<Rightarrow> json" where
  "domain a b = JObj [(''x'', nums [a, b]), (''y'', nums [0, 1])]"

definition paper_note :: "real \<Rightarrow> real \<Rightarrow> string \<Rightarrow> real \<Rightarrow> json" where
  "paper_note x y t sz = JObj [
     (''x'', JNum x), (''y'', JNum y), (''xref'', JStr ''paper''), (''yref'', JStr ''paper''),
     (''text'', JStr t), (''showarrow'', JBool False),
     (''font'', JObj [(''size'', JNum sz)])]"

text \<open>1 - Riemann sum.\<close>

definition riemann_sum :: "unit \<Rightarrow> json" where
  "riemann_sum u =
     (let n = (8::nat);
          xFine = linspace_exact 0 pi 300;
          yFine = map (\<lambda>xi. sin xi + 1.5) xFine;
          dx = pi / real n;
          bars = map (\<lambda>i.
              let xi = (real i + 0.5) * dx;
                  hi = sin xi + 1.5
              in boxMesh (real i * dx) ((real i + 0.92) * dx) 0 0.3 0 hi (VIRIDIS8 ! i))
            [0..<n]
      in JObj [
        (''data'', JArr (bars @ [
           JObj [(''type'', JStr ''scatter3d''), (''mode'', JStr ''lines''),
                 (''x'', nums xFine), (''y'', nums (replicate 300 0)), (''z'', nums yFine),
                 (''line'', line_style ''red'' 4),
                 (''name'', JStr ''f(x) = sin(x) + 1.5'')]])),
        (''layout'', JObj [
           (''title'', JStr ''Riemann Sum (n=8 rectangles)<br>Area <U+2248> <U+03A3> f(x<U+1D62>*)<U+00B7><U+0394>x  <U+2192>  <U+222B>f(x)dx  as n<U+2192><U+221E>''),
           (''scene'', JObj [
              (''xaxis'', axis ''X''),
              (''yaxis'', JObj [(''title'', JStr ''Depth''), (''showticklabels'', JBool False)]),
              (''zaxis'', axis ''f(x)'')])])])"

text \<open>2 - Surface of revolution: a parametric surface, all three grids of shape nT x nX.\<close>

definition surface_revolution :: "unit \<Rightarrow> json" where
  "surface_revolution u =
     (let nX = (80::nat); nT = (80::nat);
          xVals = linspace_exact 0 pi nX;
          rVals = map (\<lambda>xi. sin xi + 1.5) xVals;
          theta = linspace_exact 0 (2 * pi) nT;
          Xs = map (\<lambda>_. xVals) theta;
          Ys = map (\<lambda>t. map (\<lambda>r. r * cos t) rVals) theta;
          Zs = map (\<lambda>t. map (\<lambda>r. r * sin t) rVals) theta
      in JObj [
        (''data'', JArr [
           JObj [(''type'', JStr ''surface''), (''x'', grid Xs), (''y'', grid Ys), (''z'', grid Zs),
                 (''colorscale'', JStr ''YlOrBr''), (''opacity'', JNum 0.85),
                 (''showscale'', JBool False), (''name'', JStr ''Surface of Revolution'')],
           JObj [(''type'', JStr ''scatter3d''), (''mode'', JStr ''lines''),
                 (''x'', nums xVals), (''y'', nums rVals), (''z'', nums (replicate nX 0)),
                 (''line'', line_style ''red'' 4),
                 (''name'', JStr ''y = sin(x) + 1.5'')]]),
        (''layout'', JObj [
           (''title'', JStr ''Surface of Revolution<br>S = 2<U+03C0> <U+222B> f(x) <U+221A>(1+[f<U+0027>(x)]<U+00B2>) dx''),
           (''scene'', scene_xyz ''X'' ''Y'' ''Z'')])])"

text \<open>3 - 3D coordinate system.\<close>

definition coordinates_3d :: "unit \<Rightarrow> json" where
  "coordinates_3d u =
     (let P = [3, 4, 5 :: real]
      in JObj [
        (''data'', JArr [
           JObj [(''type'', JStr ''scatter3d''), (''mode'', JStr ''markers+text''),
                 (''x'', nums [P ! 0]), (''y'', nums [P ! 1]), (''z'', nums [P ! 2]),
                 (''marker'', marker ''red'' 8),
                 (''text'', JArr [JStr ''P(3, 4, 5)'']), (''textposition'', JStr ''top center''),
                 (''name'', JStr ''P(3, 4, 5)'')],
           JObj [(''type'', JStr ''scatter3d''), (''mode'', JStr ''lines''),
                 (''x'', nums [P ! 0, P ! 0]), (''y'', nums [P ! 1, P ! 1]), (''z'', nums [0, P ! 2]),
                 (''line'', dash_line ''black'' 2), (''showlegend'', JBool False)],
           JObj [(''type'', JStr ''scatter3d''), (''mode'', JStr ''lines''),
                 (''x'', nums [P ! 0, P ! 0]), (''y'', nums [0, P ! 1]), (''z'', nums [0, 0]),
                 (''line'', dash_line ''black'' 2), (''showlegend'', JBool False)],
           JObj [(''type'', JStr ''scatter3d''), (''mode'', JStr ''lines''),
                 (''x'', nums [0, P ! 0]), (''y'', nums [P ! 1, P ! 1]), (''z'', nums [0, 0]),
                 (''line'', dash_line ''black'' 2), (''showlegend'', JBool False)],
           JObj [(''type'', JStr ''scatter3d''), (''mode'', JStr ''markers''),
                 (''x'', nums [P ! 0]), (''y'', nums [P ! 1]), (''z'', nums [0]),
                 (''marker'', JObj [(''color'', JStr ''gray''), (''size'', JNum 5),
                                    (''symbol'', JStr ''cross'')]),
                 (''showlegend'', JBool False)]]),
        (''layout'', JObj [
           (''title'', JStr ''3D Coordinate System<br>d = <U+221A>(<U+0394>x<U+00B2> + <U+0394>y<U+00B2> + <U+0394>z<U+00B2>)''),
           (''scene'', JObj [
              (''xaxis'', JObj [(''title'', JStr ''X''), (''range'', nums [0, 5])]),
              (''yaxis'', JObj [(''title'', JStr ''Y''), (''range'', nums [0, 5])]),
              (''zaxis'', JObj [(''title'', JStr ''Z''), (''range'', nums [0, 6])])])])])"

text \<open>4 - Helix with tangent vector.\<close>

definition helix_tangent :: "unit \<Rightarrow> json" where
  "helix_tangent u =
     (let n = (500::nat);
          t = linspace_exact 0 (4 * pi) n;
          x = map (\<lambda>ti. cos ti) t;
          y = map (\<lambda>ti. sin ti) t;
          z = t;
          t0 = pi / 4;
          p0 = [cos t0, sin t0, t0];
          dp = [- sin t0 * 0.7, cos t0 * 0.7, 0.7]
      in JObj [
        (''data'', JArr [
           JObj [(''type'', JStr ''scatter3d''), (''mode'', JStr ''lines''),
                 (''x'', nums x), (''y'', nums y), (''z'', nums z),
                 (''line'', line_style ''royalblue'' 3),
                 (''name'', JStr ''r(t) = <U+27E8>cos t, sin t, t<U+27E9>'')],
           JObj [(''type'', JStr ''cone''),
                 (''x'', nums [p0 ! 0]), (''y'', nums [p0 ! 1]), (''z'', nums [p0 ! 2]),
                 (''u'', nums [dp ! 0]), (''v'', nums [dp ! 1]), (''w'', nums [dp ! 2]),
                 (''colorscale'', flat_scale ''red''),
                 (''showscale'', JBool False), (''sizemode'', JStr ''absolute''),
                 (''sizeref'', JNum 0.5),
                 (''anchor'', JStr ''tail''), (''name'', JStr ''r<U+0027>(t) tangent'')],
           JObj [(''type'', JStr ''scatter3d''), (''mode'', JStr ''markers''),
                 (''x'', nums [p0 ! 0]), (''y'', nums [p0 ! 1]), (''z'', nums [p0 ! 2]),
                 (''marker'', marker ''red'' 5), (''showlegend'', JBool False)],
           JObj [(''type'', JStr ''scatter3d''), (''mode'', JStr ''lines''),
                 (''x'', nums (map (\<lambda>ti. cos ti) t)), (''y'', nums (map (\<lambda>ti. sin ti) t)),
                 (''z'', nums (replicate n 0)),
                 (''line'', dash_line ''gray'' 1), (''opacity'', JNum 0.4),
                 (''name'', JStr ''projection'')]]),
        (''layout'', JObj [
           (''title'', JStr ''Helix r(t) = <U+27E8>cos t, sin t, t<U+27E9><br>with tangent vector r<U+0027>(t) = <U+27E8><U+2212>sin t, cos t, 1<U+27E9>''),
           (''scene'', scene_xyz ''X'' ''Y'' ''Z'')])])"

text \<open>5 - Multivariable surface with level curves.\<close>

definition multivariable_surface :: "unit \<Rightarrow> json" where
  "multivariable_surface u =
     (let n = (80::nat);
          xArr = linspace_exact (- 3) 3 n;
          yArr = linspace_exact (- 3) 3 n;
          Z = map (\<lambda>y. map (\<lambda>x.
                sin (sqrt (x * x + y * y)) * exp (- 0.18 * (x * x + y * y))) xArr) yArr
      in JObj [
        (''data'', JArr [
           JObj [(''type'', JStr ''surface''), (''x'', nums xArr), (''y'', nums yArr), (''z'', grid Z),
                 (''colorscale'', JStr ''Viridis''), (''opacity'', JNum 0.92),
                 (''contours'', JObj [
                    (''z'', JObj [(''show'', JBool True), (''usecolormap'', JBool True),
                                  (''highlightcolor'', JStr ''#42f462''),
                                  (''project'', JObj [(''z'', JBool True)])])]),
                 (''name'', JStr ''z = f(x,y)'')]]),
        (''layout'', JObj [
           (''title'', JStr ''Functions of Several Variables<br>z = sin(<U+221A>(x<U+00B2>+y<U+00B2>)) <U+00B7> e^(<U+2212>0.18(x<U+00B2>+y<U+00B2>))''),
           (''scene'', scene_xyz ''X'' ''Y'' ''Z'')])])"

text \<open>6 - Partial derivatives.\<close>

definition partial_derivatives :: "unit \<Rightarrow> json" where
  "partial_derivatives u =
     (let n = (60::nat);
          xArr = linspace_exact (- 2) 2 n;
          yArr = linspace_exact (- 2) 2 n;
          Z = map (\<lambda>y. map (\<lambda>x. x * x + 0.5 * y * y) xArr) yArr
      in JObj [
        (''data'', JArr [
           JObj [(''type'', JStr ''surface''), (''x'', nums xArr), (''y'', nums yArr), (''z'', grid Z),
                 (''colorscale'', JStr ''Plasma''), (''opacity'', JNum 0.50),
                 (''showscale'', JBool False),
                 (''name'', JStr ''f(x,y) = x<U+00B2> + 0.5y<U+00B2>'')],
           JObj [(''type'', JStr ''scatter3d''), (''mode'', JStr ''lines''),
                 (''x'', nums xArr), (''y'', nums (replicate n 0)),
                 (''z'', nums (map (\<lambda>x. x * x) xArr)),
                 (''line'', line_style ''red'' 4),
                 (''name'', JStr ''<U+2202>f/<U+2202>x slice (y=0)'')],
           JObj [(''type'', JStr ''scatter3d''), (''mode'', JStr ''lines''),
                 (''x'', nums (replicate n 0)), (''y'', nums xArr),
                 (''z'', nums (map (\<lambda>y. 0.5 * y * y) xArr)),
                 (''line'', line_style ''blue'' 4),
                 (''name'', JStr ''<U+2202>f/<U+2202>y slice (x=0)'')]]),
        (''layout'', JObj [
           (''title'', JStr ''f(x,y) = x<U+00B2> + 0.5y<U+00B2><br>Partial-Derivative Cross-Sections (red=<U+2202>f/<U+2202>x, blue=<U+2202>f/<U+2202>y)''),
           (''scene'', scene_xyz ''X'' ''Y'' ''Z'')])])"

text \<open>7 - Tangent plane.\<close>

definition tangent_plane :: "unit \<Rightarrow> json" where
  "tangent_plane u =
     (let n = (50::nat);
          xArr = linspace_exact (- 2) 2 n;
          yArr = linspace_exact (- 2) 2 n;
          Z = map (\<lambda>y. map (\<lambda>x. x * x + y * y) xArr) yArr;
          a = (1::real); b = (1::real); fab = (2::real);
          ZPlane = map (\<lambda>y. map (\<lambda>x. fab + 2 * (x - a) + 2 * (y - b)) xArr) yArr
      in JObj [
        (''data'', JArr [
           JObj [(''type'', JStr ''surface''), (''x'', nums xArr), (''y'', nums yArr), (''z'', grid Z),
                 (''colorscale'', JStr ''Blues''), (''opacity'', JNum 0.55),
                 (''name'', JStr ''Surface z = x<U+00B2> + y<U+00B2>'')],
           JObj [(''type'', JStr ''surface''), (''x'', nums xArr), (''y'', nums yArr),
                 (''z'', grid ZPlane),
                 (''colorscale'', flat_scale ''orange''), (''opacity'', JNum 0.40),
                 (''showscale'', JBool False), (''name'', JStr ''Tangent Plane at (1,1,2)'')],
           JObj [(''type'', JStr ''scatter3d''), (''mode'', JStr ''markers+text''),
                 (''x'', nums [a]), (''y'', nums [b]), (''z'', nums [fab]),
                 (''marker'', marker ''red'' 10),
                 (''text'', JArr [JStr ''(a, b, f(a,b))'']), (''textposition'', JStr ''top center''),
                 (''name'', JStr ''Point of tangency'')]]),
        (''layout'', JObj [
           (''title'', JStr ''Tangent Plane to z = x<U+00B2> + y<U+00B2> at (1, 1, 2)<br>z <U+2212> f(a,b) = f<U+2093>(a,b)(x<U+2212>a) + f<U+1D67>(a,b)(y<U+2212>b)''),
           (''scene'', scene_xyz ''X'' ''Y'' ''Z'')])])"

text \<open>
  8 - Gradient vectors. The two nested \<^verbatim>\<open>for\<close> statements push onto five arrays;
  the state threaded through them is the tuple of the arrays.
\<close>

type_synonym arrows = "json list \<times> json list \<times> real list \<times> real list \<times> real list"

definition gradient_push :: "real list \<Rightarrow> real list \<Rightarrow> nat \<Rightarrow> nat \<Rightarrow> arrows \<Rightarrow> arrows" where
  "gradient_push gx gy j i st =
     (case st of (lineX, lineY, tipX, tipY, tipAngle) \<Rightarrow>
        let scale = 0.28;
            cx = gx ! i; cy = gy ! j;
            dx = 2 * cx; dy = 4 * cy;
            mag = sqrt (dx * dx + dy * dy) + 1 / 10 ^ 8;
            nx = dx / mag * scale; ny = dy / mag * scale
        in (lineX @ [JNum cx, JNum (cx + nx), JNull],
            lineY @ [JNum cy, JNum (cy + ny), JNull],
            tipX @ [cx + nx],
            tipY @ [cy + ny],
            tipAngle @ [- atan2 ny nx * 180 / pi + 90]))"

definition gradient_vectors :: "unit \<Rightarrow> json" where
  "gradient_vectors u =
     (let n = (120::nat);
          xArr = linspace_exact (- 3) 3 n;
          yArr = linspace_exact (- 3) 3 n;
          Z = map (\<lambda>y. map (\<lambda>x. x * x + 2 * y * y) xArr) yArr;
          gn = (10::nat);
          gx = linspace_exact (- 2.5) 2.5 gn;
          gy = linspace_exact (- 2.5) 2.5 gn;
          (lineX, lineY, tipX, tipY, tipAngle) =
             fold (\<lambda>j. fold (\<lambda>i. gradient_push gx gy j i) [0..<gn]) [0..<gn]
               ([], [], [], [], [])
      in JObj [
        (''data'', JArr [
           JObj [(''type'', JStr ''contour''), (''x'', nums xArr), (''y'', nums yArr), (''z'', grid Z),
                 (''colorscale'', JStr ''RdYlGn''), (''ncontours'', JNum 18),
                 (''showscale'', JBool True),
                 (''colorbar'', JObj [(''title'', JStr ''f(x,y)'')]),
                 (''name'', JStr ''f(x,y) = x<U+00B2> + 2y<U+00B2>'')],
           JObj [(''type'', JStr ''scatter''), (''mode'', JStr ''lines''),
                 (''x'', JArr lineX), (''y'', JArr lineY),
                 (''line'', line_style ''black'' 1.5),
                 (''showlegend'', JBool False), (''hoverinfo'', JStr ''none'')],
           JObj [(''type'', JStr ''scatter''), (''mode'', JStr ''markers''),
                 (''x'', nums tipX), (''y'', nums tipY),
                 (''marker'', JObj [(''symbol'', JStr ''triangle-up''), (''size'', JNum 8),
                                    (''color'', JStr ''black''), (''angle'', nums tipAngle)]),
                 (''showlegend'', JBool False), (''hoverinfo'', JStr ''none'')]]),
        (''layout'', JObj [
           (''title'', JStr ''<U+2207>f = <U+27E8>2x, 4y<U+27E9> <U+2014> arrows point toward STEEPEST ASCENT (<U+22A5> to level curves)''),
           (''xaxis'', JObj [(''title'', JStr ''X''), (''scaleanchor'', JStr ''y'')]),
           (''yaxis'', axis ''Y''),
           (''height'', JNum 550)])])"

text \<open>9 - Critical points (saddle, minimum, maximum).\<close>

definition dot :: "real list list \<Rightarrow> string \<Rightarrow> string \<Rightarrow> json" where
  "dot Z scene name = JObj [
     (''type'', JStr ''scatter3d''), (''mode'', JStr ''markers''),
     (''x'', nums [0]), (''y'', nums [0]), (''z'', nums [0]),
     (''marker'', marker ''red'' 7),
     (''scene'', JStr scene), (''name'', JStr name), (''showlegend'', JBool False)]"

definition critical_points :: "unit \<Rightarrow> json" where
  "critical_points u =
     (let n = (50::nat);
          xArr = linspace_exact (- 2) 2 n;
          yArr = linspace_exact (- 2) 2 n;
          saddle = map (\<lambda>y. map (\<lambda>x. x * x - y * y) xArr) yArr;
          localMin = map (\<lambda>y. map (\<lambda>x. x * x + y * y) xArr) yArr;
          localMax = map (\<lambda>y. map (\<lambda>x. - (x * x + y * y)) xArr) yArr
      in JObj [
        (''data'', JArr [
           JObj [(''type'', JStr ''surface''), (''x'', nums xArr), (''y'', nums yArr),
                 (''z'', grid saddle),
                 (''colorscale'', JStr ''RdBu''), (''opacity'', JNum 0.85),
                 (''showscale'', JBool False), (''scene'', JStr ''scene''),
                 (''name'', JStr ''Saddle  z = x<U+00B2><U+2212>y<U+00B2>'')],
           dot saddle ''scene'' ''s'',
           JObj [(''type'', JStr ''surface''), (''x'', nums xArr), (''y'', nums yArr),
                 (''z'', grid localMin),
                 (''colorscale'', JStr ''Blues''), (''opacity'', JNum 0.85),
                 (''showscale'', JBool False), (''scene'', JStr ''scene2''),
                 (''name'', JStr ''Min  z = x<U+00B2>+y<U+00B2>'')],
           dot localMin ''scene2'' ''m'',
           JObj [(''type'', JStr ''surface''), (''x'', nums xArr), (''y'', nums yArr),
                 (''z'', grid localMax),
                 (''colorscale'', JStr ''Reds''), (''opacity'', JNum 0.85),
                 (''showscale'', JBool False), (''scene'', JStr ''scene3''),
                 (''name'', JStr ''Max  z = <U+2212>x<U+00B2><U+2212>y<U+00B2>'')],
           dot localMax ''scene3'' ''x'']),
        (''layout'', JObj [
           (''title'', JStr ''Critical Points <U+2014> Second Derivative Test  D = f<U+2093><U+2093><U+00B7>f<U+1D67><U+1D67> <U+2212> (f<U+2093><U+1D67>)<U+00B2>''),
           (''scene'', JObj [
              (''domain'', domain 0.00 0.30),
              (''xaxis'', axis ''''), (''yaxis'', axis ''''), (''zaxis'', axis ''''),
              (''annotations'', JArr [JObj [
                 (''x'', JNum 0), (''y'', JNum 0), (''z'', JNum 0),
                 (''text'', JStr ''Saddle (D<0)''), (''showarrow'', JBool False)]])]),
           (''scene2'', JObj [
              (''domain'', domain 0.35 0.65),
              (''xaxis'', axis ''''), (''yaxis'', axis ''''), (''zaxis'', axis '''')]),
           (''scene3'', JObj [
              (''domain'', domain 0.70 1.00),
              (''xaxis'', axis ''''), (''yaxis'', axis ''''), (''zaxis'', axis '''')]),
           (''height'', JNum 500),
           (''annotations'', JArr [
              paper_note 0.15 1.05 ''Saddle Point (D<0)'' 12,
              paper_note 0.50 1.05 ''Local Minimum (D>0, f<U+2093><U+2093>>0)'' 12,
              paper_note 0.85 1.05 ''Local Maximum (D>0, f<U+2093><U+2093><0)'' 12])])])"

text \<open>10 - Double integral volume.\<close>

definition double_integral :: "unit \<Rightarrow> json" where
  "double_integral u =
     (let n = (50::nat);
          xArr = linspace_exact 0 2 n;
          yArr = linspace_exact 0 2 n;
          Z = map (\<lambda>y. map (\<lambda>x. max 0 (4 - x * x - y * y)) xArr) yArr
      in JObj [
        (''data'', JArr [
           JObj [(''type'', JStr ''surface''), (''x'', nums xArr), (''y'', nums yArr), (''z'', grid Z),
                 (''colorscale'', JStr ''Viridis''), (''opacity'', JNum 0.82),
                 (''contours'', JObj [
                    (''z'', JObj [(''show'', JBool True), (''usecolormap'', JBool True),
                                  (''project'', JObj [(''z'', JBool True)])])]),
                 (''name'', JStr ''f(x,y) = 4 <U+2212> x<U+00B2> <U+2212> y<U+00B2>'')],
           JObj [(''type'', JStr ''surface''), (''x'', nums xArr), (''y'', nums yArr),
                 (''z'', grid (map (\<lambda>_. replicate n 0) yArr)),
                 (''colorscale'', flat_scale ''lightblue''), (''opacity'', JNum 0.22),
                 (''showscale'', JBool False), (''name'', JStr ''xy-plane base'')]]),
        (''layout'', JObj [
           (''title'', JStr ''Double Integral <U+222C>_R f(x,y) dA = Volume under surface<br>f(x,y) = 4 <U+2212> x<U+00B2> <U+2212> y<U+00B2>''),
           (''scene'', scene_xyz ''X'' ''Y'' ''f(x,y)'')])])"

text \<open>
  11 - Coordinate systems. The cylinder is a parametric surface of shape nZ x nT, the
  sphere one of shape nT x nT.
\<close>

definition coordinate_systems :: "unit \<Rightarrow> json" where
  "coordinate_systems u =
     (let nT = (80::nat);
          theta = linspace_exact 0 (2 * pi) nT;
          nZ = (30::nat);
          zArr = linspace_exact 0 3 nZ;
          rCyl = (1.5::real);
          cylX = map (\<lambda>_. map (\<lambda>t. rCyl * cos t) theta) zArr;
          cylY = map (\<lambda>_. map (\<lambda>t. rCyl * sin t) theta) zArr;
          cylZ = map (\<lambda>zi. replicate nT zi) zArr;
          r0 = (1.5::real); th0 = pi / 3; z0 = (2.0::real);
          px1 = r0 * cos th0; py1 = r0 * sin th0;
          phi = linspace_exact 0 pi nT;
          rho = (2.0::real);
          sphX = map (\<lambda>t. map (\<lambda>p. rho * sin p * cos t) phi) theta;
          sphY = map (\<lambda>t. map (\<lambda>p. rho * sin p * sin t) phi) theta;
          sphZ = map (\<lambda>_. map (\<lambda>p. rho * cos p) phi) theta;
          rho0 = (2.0::real); phi0 = pi / 4; the0 = pi / 3;
          px2 = rho0 * sin phi0 * cos the0;
          py2 = rho0 * sin phi0 * sin the0;
          pz2 = rho0 * cos phi0
      in JObj [
        (''data'', JArr [
           JObj [(''type'', JStr ''surface''), (''x'', grid cylX), (''y'', grid cylY),
                 (''z'', grid cylZ),
                 (''colorscale'', flat_scale ''cyan''), (''opacity'', JNum 0.18),
                 (''showscale'', JBool False), (''scene'', JStr ''scene''),
                 (''name'', JStr ''Cylinder'')],
           JObj [(''type'', JStr ''scatter3d''), (''mode'', JStr ''markers''),
                 (''x'', nums [px1]), (''y'', nums [py1]), (''z'', nums [z0]),
                 (''marker'', marker ''red'' 8), (''scene'', JStr ''scene''),
                 (''name'', JStr ''P(r=1.5, <U+03B8>=<U+03C0>/3, z=2)'')],
           JObj [(''type'', JStr ''scatter3d''), (''mode'', JStr ''lines''),
                 (''x'', nums [0, px1]), (''y'', nums [0, py1]), (''z'', nums [z0, z0]),
                 (''line'', dash_line ''red'' 2), (''scene'', JStr ''scene''),
                 (''name'', JStr ''r''), (''showlegend'', JBool False)],
           JObj [(''type'', JStr ''scatter3d''), (''mode'', JStr ''lines''),
                 (''x'', nums [px1, px1]), (''y'', nums [py1, py1]), (''z'', nums [0, z0]),
                 (''line'', dash_line ''green'' 2), (''scene'', JStr ''scene''),
                 (''name'', JStr ''z''), (''showlegend'', JBool False)],
           JObj [(''type'', JStr ''surface''), (''x'', grid sphX), (''y'', grid sphY),
                 (''z'', grid sphZ),
                 (''colorscale'', flat_scale ''lightgreen''), (''opacity'', JNum 0.18),
                 (''showscale'', JBool False), (''scene'', JStr ''scene2''),
                 (''name'', JStr ''Sphere <U+03C1>=2'')],
           JObj [(''type'', JStr ''scatter3d''), (''mode'', JStr ''markers''),
                 (''x'', nums [px2]), (''y'', nums [py2]), (''z'', nums [pz2]),
                 (''marker'', marker ''red'' 8), (''scene'', JStr ''scene2''),
                 (''name'', JStr ''P(<U+03C1>=2, <U+03C6>=<U+03C0>/4, <U+03B8>=<U+03C0>/3)'')],
           JObj [(''type'', JStr ''scatter3d''), (''mode'', JStr ''lines''),
                 (''x'', nums [0, px2]), (''y'', nums [0, py2]), (''z'', nums [0, pz2]),
                 (''line'', line_style ''red'' 2), (''scene'', JStr ''scene2''),
                 (''name'', JStr ''<U+03C1>''), (''showlegend'', JBool False)]]),
        (''layout'', JObj [
           (''title'', JStr ''3D Coordinate Systems''),
           (''scene'', JObj [(''domain'', domain 0.00 0.48),
              (''xaxis'', axis ''X''), (''yaxis'', axis ''Y''), (''zaxis'', axis ''Z'')]),
           (''scene2'', JObj [(''domain'', domain 0.52 1.00),
              (''xaxis'', axis ''X''), (''yaxis'', axis ''Y''), (''zaxis'', axis ''Z'')]),
           (''height'', JNum 520),
           (''annotations'', JArr [
              paper_note 0.24 1.04 ''Cylindrical (r, <U+03B8>, z)  dV = r dz dr d<U+03B8>'' 13,
              paper_note 0.76 1.04 ''Spherical (<U+03C1>, <U+03C6>, <U+03B8>)  dV = <U+03C1><U+00B2> sin <U+03C6> d<U+03C1> d<U+03C6> d<U+03B8>'' 13])])])"

text \<open>
  12 - 3D vector field. The three nested \<^verbatim>\<open>for ... of\<close> statements push onto six
  arrays.
\<close>

type_synonym cones = "real list \<times> real list \<times> real list \<times> real list \<times> real list \<times> real list"

definition field_push :: "real \<Rightarrow> real \<Rightarrow> real \<Rightarrow> cones \<Rightarrow> cones" where
  "field_push z y x st =
     (case st of (X, Y, Z, U, V, W) \<Rightarrow>
        (X @ [x], Y @ [y], Z @ [z], U @ [- y * 0.35], V @ [x * 0.35], W @ [z * 0.12]))"

definition vector_field_3d :: "unit \<Rightarrow> json" where
  "vector_field_3d u =
     (let pts = [- 2, - 1, 0, 1, 2 :: real];
          (X, Y, Z, U, V, W) =
             fold (\<lambda>z. fold (\<lambda>y. fold (\<lambda>x. field_push z y x) pts) pts) pts
               ([], [], [], [], [], [])
      in JObj [
        (''data'', JArr [
           JObj [(''type'', JStr ''cone''),
                 (''x'', nums X), (''y'', nums Y), (''z'', nums Z),
                 (''u'', nums U), (''v'', nums V), (''w'', nums W),
                 (''colorscale'', JStr ''Blues''),
                 (''sizemode'', JStr ''absolute''), (''sizeref'', JNum 0.45),
                 (''showscale'', JBool True),
                 (''colorbar'', JObj [(''title'', JStr ''|F|'')]),
                 (''anchor'', JStr ''tail''),
                 (''name'', JStr ''F = <U+27E8><U+2212>y, x, z/3<U+27E9>'')]]),
        (''layout'', JObj [
           (''title'', JStr ''3D Vector Field  F = <U+27E8><U+2212>y, x, z/3<U+27E9><br>curl F <U+2260> 0 (rotation about z-axis)''),
           (''scene'', JObj [(''xaxis'', axis ''X''), (''yaxis'', axis ''Y''),
                             (''zaxis'', axis ''Z''), (''aspectmode'', JStr ''cube'')])])])"

text \<open>
  13 - Black-Scholes call price and delta. \<open>bsCall\<close> and \<open>delta\<close> are the two closures
  of the factory over its constants \<open>K\<close>, \<open>r\<close> and \<open>sigma\<close>.
\<close>

definition bs_K :: real where "bs_K = 100"
definition bs_r :: real where "bs_r = 0.05"
definition bs_sigma :: real where "bs_sigma = 0.20"

definition bsCall :: "real \<Rightarrow> real \<Rightarrow> real" where
  "bsCall s t =
     (let tt = max t (1 / 10 ^ 6);
          d1 = (ln (s / bs_K) + (bs_r + 0.5 * bs_sigma * bs_sigma) * tt) / (bs_sigma * sqrt tt);
          d2 = d1 - bs_sigma * sqrt tt
      in s * normCDF d1 - bs_K * exp (- bs_r * tt) * normCDF d2)"

definition delta :: "real \<Rightarrow> real \<Rightarrow> real" where
  "delta s t =
     (let tt = max t (1 / 10 ^ 6);
          d1 = (ln (s / bs_K) + (bs_r + 0.5 * bs_sigma * bs_sigma) * tt) / (bs_sigma * sqrt tt)
      in normCDF d1)"

definition black_scholes :: "unit \<Rightarrow> json" where
  "black_scholes u =
     (let nS = (60::nat); nT = (60::nat);
          S = linspace_exact 60 150 nS;
          T = linspace_exact 0.02 2.0 nT;
          V = map (\<lambda>ti. map (\<lambda>si. bsCall si ti) S) T;
          D = map (\<lambda>ti. map (\<lambda>si. delta si ti) S) T
      in JObj [
        (''data'', JArr [
           JObj [(''type'', JStr ''surface''), (''x'', nums S), (''y'', nums T), (''z'', grid V),
                 (''colorscale'', JStr ''RdYlGn''), (''opacity'', JNum 0.90),
                 (''scene'', JStr ''scene''), (''name'', JStr ''Call Price V''),
                 (''colorbar'', JObj [(''title'', JStr ''V ($)''), (''x'', JNum 0.45),
                                      (''len'', JNum 0.8)])],
           JObj [(''type'', JStr ''surface''), (''x'', nums S), (''y'', nums T), (''z'', grid D),
                 (''colorscale'', JStr ''RdBu''), (''opacity'', JNum 0.90),
                 (''scene'', JStr ''scene2''), (''name'', JStr ''Delta <U+0394>''),
                 (''colorbar'', JObj [(''title'', JStr ''<U+0394>''), (''x'', JNum 1.00),
                                      (''len'', JNum 0.8)])]]),
        (''layout'', JObj [
           (''title'', JStr ''Quant Finance <U+2014> Option Greeks as Partial Derivatives''),
           (''scene'', JObj [(''domain'', domain 0.00 0.48),
              (''xaxis'', axis ''Stock Price S''), (''yaxis'', axis ''Time T''),
              (''zaxis'', axis ''V ($)'')]),
           (''scene2'', JObj [(''domain'', domain 0.52 1.00),
              (''xaxis'', axis ''Stock Price S''), (''yaxis'', axis ''Time T''),
              (''zaxis'', axis ''<U+0394> = <U+2202>V/<U+2202>S'')]),
           (''height'', JNum 520),
           (''annotations'', JArr [
              paper_note 0.24 1.04 ''Call Price V(S,T)  <U+2014>  slope <U+2202>V/<U+2202>S = Delta'' 12,
              paper_note 0.76 1.04 ''Delta <U+0394>(S,T) = <U+2202>V/<U+2202>S  <U+2014>  curvature = Gamma'' 12])])])"

text \<open>The registry: the own properties of the object literal \<^verbatim>\<open>CHARTS\<close>, in source order.\<close>

definition CHARTS :: "(string \<times> (unit \<Rightarrow> json)) list" where
  "CHARTS = [
     (''riemann-sum'', riemann_sum),
     (''surface-revolution'', surface_revolution),
     (''3d-coordinates'', coordinates_3d),
     (''helix-tangent'', helix_tangent),
     (''multivariable-surface'', multivariable_surface),
     (''partial-derivatives'', partial_derivatives),
     (''tangent-plane'', tangent_plane),
     (''gradient-vectors'', gradient_vectors),
     (''critical-points'', critical_points),
     (''double-integral'', double_integral),
     (''coordinate-systems'', coordinate_systems),
     (''vector-field-3d'', vector_field_3d),
     (''black-scholes'', black_scholes)]"

definition chart_ids :: "string list" where
  "chart_ids = map fst CHARTS"

subsection \<open>Registry lookup\<close>

text \<open>
  \<^verbatim>\<open>CHARTS[chartName]\<close> is a property read on an ordinary object: an own property if
  there is one, otherwise what the object inherits from \<^verbatim>\<open>Object.prototype\<close>, otherwise
  \<^verbatim>\<open>undefined\<close>. The inherited members are those of ECMAScript (with Annex B):
  eleven methods, and the accessor \<^verbatim>\<open>__proto__\<close>, which reads as the prototype object.
\<close>

datatype jsvalue =
    Undefined
  | Producer "unit \<Rightarrow> json"
  | ProtoMethod string
  | ProtoObject

definition object_prototype_methods :: "string list" where
  "object_prototype_methods = [
     ''constructor'', ''hasOwnProperty'', ''isPrototypeOf'', ''propertyIsEnumerable'',
     ''toLocaleString'', ''toString'', ''valueOf'',
     ''__defineGetter__'', ''__defineSetter__'', ''__lookupGetter__'', ''__lookupSetter__'']"

definition lookup_chart :: "string \<Rightarrow> jsvalue" where
  "lookup_chart chartName =
     (case map_of CHARTS chartName of
        Some producer \<Rightarrow> Producer producer
      | None \<Rightarrow>
          if chartName \<in> set object_prototype_methods then ProtoMethod chartName
          else if chartName = ''__proto__'' then ProtoObject
          else Undefined)"

text \<open>\<^verbatim>\<open>!def\<close>: of the values a lookup can give, only \<^verbatim>\<open>undefined\<close> is falsy.\<close>

definition falsy :: "jsvalue \<Rightarrow> bool" where
  "falsy v = (v = Undefined)"

text \<open>
  \<^verbatim>\<open>const { data, layout } = def()\<close>: the call and the destructuring of its result.
  A factory returns its descriptor. \<^verbatim>\<open>Object.prototype\<close> is not callable. Of the
  inherited methods, called with no receiver and no argument, \<^verbatim>\<open>constructor\<close> returns
  an empty object, \<^verbatim>\<open>toString\<close> a string and \<^verbatim>\<open>isPrototypeOf\<close> a boolean, none of
  which has a \<^verbatim>\<open>data\<close> or \<^verbatim>\<open>layout\<close> property; the others throw on the missing
  receiver.
\<close>

definition call_def :: "jsvalue \<Rightarrow> error + (json option \<times> json option)" where
  "call_def def =
     (case def of
        Producer producer \<Rightarrow>
          (let d = producer () in Inr (field ''data'' d, field ''layout'' d))
      | ProtoMethod m \<Rightarrow>
          if m \<in> {''constructor'', ''toString'', ''isPrototypeOf''} then Inr (None, None)
          else Inl TypeError
      | ProtoObject \<Rightarrow> Inl TypeError
      | Undefined \<Rightarrow> Inl TypeError)"

subsection \<open>Layout handed to the engine\<close>

text \<open>JavaScript truthiness of a descriptor value, and \<^verbatim>\<open>v || d\<close> on a property read.\<close>

fun truthy :: "json \<Rightarrow> bool" where
  "truthy JNull = False"
| "truthy (JBool b) = b"
| "truthy (JNum x) = (x \<noteq> 0)"
| "truthy (JStr s) = (s \<noteq> [])"
| "truthy (JArr xs) = True"
| "truthy (JObj ps) = True"

definition or_else :: "json option \<Rightarrow> json \<Rightarrow> json" where
  "or_else v d = (case v of None \<Rightarrow> d | Some x \<Rightarrow> if truthy x then x else d)"

text \<open>
  The own properties an object spread copies (of the values that occur as layouts, only
  objects have any).
\<close>

fun spread :: "json \<Rightarrow> (string \<times> json) list" where
  "spread (JObj ps) = ps"
| "spread _ = []"

text \<open>
  An object literal with a spread: later properties overwrite earlier ones of the same
  name in place, new names are appended.
\<close>

definition assign :: "(string \<times> json) list \<Rightarrow> (string \<times> json) list \<Rightarrow> (string \<times> json) list" where
  "assign ps qs = fold (\<lambda>(k, v). AList.update k v) qs ps"

definition fullLayout :: "json \<Rightarrow> json" where
  "fullLayout layout = JObj (assign (spread layout) [
     (''paper_bgcolor'', JStr ''transparent''),
     (''plot_bgcolor'', JStr ''transparent''),
     (''font'', JObj [(''family'', JStr ''inherit'')]),
     (''margin'', JObj [(''t'', JNum 80), (''r'', JNum 20), (''b'', JNum 50), (''l'', JNum 20)]),
     (''height'', or_else (field ''height'' layout) (JNum 500))])"

definition plot_config :: json where
  "plot_config = JObj [(''responsive'', JBool True), (''displayModeBar'', JBool True)]"

subsection \<open>Page state\<close>

text \<open>
  The state the adapter reads and writes: the module variable \<^verbatim>\<open>_plotlyPromise\<close>, the
  promises created so far (a promise is its index), \<^verbatim>\<open>window.Plotly\<close>, the script
  elements appended to the document, the console, and per component instance its
  \<^verbatim>\<open>divRef.current\<close>, its \<^verbatim>\<open>ready\<close> flag and what the engine has drawn in its
  container. Engine handles, component instances and containers are numbers.
\<close>

datatype pstate = Pending | Fulfilled nat | Rejected

record draw =
  ddata :: "json option"
  dlayout :: json
  dconfig :: json

text \<open>
  A reaction is a \<^verbatim>\<open>.then(...).catch(...)\<close> registered by an effect: the promise it
  waits for and what its closure captured.
\<close>

record reaction =
  rpromise :: nat
  rcomp :: nat
  rdata :: "json option"
  rlayout :: "json option"

record page =
  plotlyPromise :: "nat option"
  promises :: "pstate list"
  windowPlotly :: "nat option"
  fetches :: nat
  inflight :: "nat list"
  reactions :: "reaction list"
  console :: "string list"
  divRef :: "nat \<Rightarrow> nat option"
  ready :: "nat \<Rightarrow> bool"
  drawn :: "nat \<Rightarrow> draw option"

text \<open>A freshly loaded page; \<open>w\<close> is \<^verbatim>\<open>window.Plotly\<close> as the page found it.\<close>

definition init :: "nat option \<Rightarrow> page" where
  "init w = \<lparr>plotlyPromise = None, promises = [], windowPlotly = w, fetches = 0,
            inflight = [], reactions = [], console = [],
            divRef = (\<lambda>_. None), ready = (\<lambda>_. False), drawn = (\<lambda>_. None)\<rparr>"

subsection \<open>Plotly CDN loader\<close>

definition new_promise :: "pstate \<Rightarrow> page \<Rightarrow> nat \<times> page" where
  "new_promise v s = (length (promises s), s\<lparr>promises := promises s @ [v]\<rparr>)"

text \<open>Settling a promise that is already settled does nothing.\<close>

definition settle :: "nat \<Rightarrow> pstate \<Rightarrow> page \<Rightarrow> page" where
  "settle p v s =
     (if p < length (promises s) \<and> promises s ! p = Pending
      then s\<lparr>promises := (promises s)[p := v]\<rparr> else s)"

text \<open>
  \<^verbatim>\<open>loadPlotly\<close>. Creating the promise creates the script element and appends it to the
  document head: one fetch, in flight until its \<^verbatim>\<open>onload\<close> or \<^verbatim>\<open>onerror\<close> fires.
\<close>

definition loadPlotly :: "page \<Rightarrow> nat \<times> page" where
  "loadPlotly s =
     (case plotlyPromise s of
        Some p \<Rightarrow> (p, s)
      | None \<Rightarrow>
          (case windowPlotly s of
             Some e \<Rightarrow> new_promise (Fulfilled e) s
           | None \<Rightarrow>
               (let (p, s') = new_promise Pending s
                in (p, s'\<lparr>plotlyPromise := Some p,
                          fetches := fetches s' + 1,
                          inflight := inflight s' @ [p]\<rparr>))))"

text \<open>
  The script finished loading: it has defined \<^verbatim>\<open>window.Plotly\<close> (the handle \<open>e\<close>), and
  \<^verbatim>\<open>onload\<close> resolves the promise with it.
\<close>

definition script_onload :: "nat \<Rightarrow> page \<Rightarrow> page" where
  "script_onload e s =
     (case inflight s of
        [] \<Rightarrow> s
      | p # ps \<Rightarrow> settle p (Fulfilled e) (s\<lparr>windowPlotly := Some e, inflight := ps\<rparr>))"

definition script_onerror :: "page \<Rightarrow> page" where
  "script_onerror s =
     (case inflight s of
        [] \<Rightarrow> s
      | p # ps \<Rightarrow> settle p Rejected (s\<lparr>inflight := ps\<rparr>))"

text \<open>Calls of the loader interleaved with the outcome of the fetch.\<close>

datatype loader_event = Call | Loaded nat | Failed

fun loader_run :: "loader_event list \<Rightarrow> page \<Rightarrow> nat list \<times> page" where
  "loader_run [] s = ([], s)"
| "loader_run (Call # evs) s =
     (let (p, s') = loadPlotly s; (ps, s'') = loader_run evs s' in (p # ps, s''))"
| "loader_run (Loaded e # evs) s = loader_run evs (script_onload e s)"
| "loader_run (Failed # evs) s = loader_run evs (script_onerror s)"

subsection \<open>Inner chart component\<close>

text \<open>
  What \<^verbatim>\<open>PlotlyChart\<close> renders: the inline error, or the chart, with or without the
  "Loading" placeholder and with the height of the container \<^verbatim>\<open>div\<close>.
  The height calls the factory a second time:
  \<^verbatim>\<open>ready ? (CHARTS[chartName]?.()?.layout?.height || 500) : 0\<close>.
\<close>

datatype view = ChartNotFound string | ChartView bool json

definition PlotlyChart_render :: "page \<Rightarrow> nat \<Rightarrow> string \<Rightarrow> error + view" where
  "PlotlyChart_render s c chartName =
     (let def = lookup_chart chartName
      in if falsy def then Inr (ChartNotFound chartName)
         else if \<not> ready s c then Inr (ChartView True (JNum 0))
         else (case call_def def of
                 Inl e \<Rightarrow> Inl e
               | Inr (data, layout) \<Rightarrow>
                   Inr (ChartView False
                          (or_else (Option.bind layout (field ''height'')) (JNum 500)))))"

text \<open>
  The body of \<^verbatim>\<open>useEffect\<close>: call the factory, call the loader, register the reaction.
\<close>

definition effect :: "nat \<Rightarrow> jsvalue \<Rightarrow> page \<Rightarrow> error + page" where
  "effect c def s =
     (case call_def def of
        Inl e \<Rightarrow> Inl e
      | Inr (data, layout) \<Rightarrow>
          (let (p, s') = loadPlotly s
           in Inr (s'\<lparr>reactions := reactions s' @
                     [\<lparr>rpromise = p, rcomp = c, rdata = data, rlayout = layout\<rparr>]\<rparr>)))"

text \<open>\<^verbatim>\<open>Plotly.newPlot\<close> replaces what the container shows.\<close>

definition newPlot :: "nat \<Rightarrow> json option \<Rightarrow> json \<Rightarrow> json \<Rightarrow> page \<Rightarrow> page" where
  "newPlot d data layout config s =
     s\<lparr>drawn := (drawn s)(d := Some \<lparr>ddata = data, dlayout = layout, dconfig = config\<rparr>)\<rparr>"

text \<open>
  The \<^verbatim>\<open>then\<close> callback. Building \<^verbatim>\<open>fullLayout\<close> reads \<^verbatim>\<open>layout.height\<close>, which throws
  when \<^verbatim>\<open>layout\<close> is \<^verbatim>\<open>undefined\<close> or \<^verbatim>\<open>null\<close>.
\<close>

definition on_fulfilled :: "reaction \<Rightarrow> page \<Rightarrow> error + page" where
  "on_fulfilled r s =
     (case divRef s (rcomp r) of
        None \<Rightarrow> Inr s
      | Some d \<Rightarrow>
          (case rlayout r of
             None \<Rightarrow> Inl TypeError
           | Some layout \<Rightarrow>
               if layout = JNull then Inl TypeError
               else Inr ((newPlot d (rdata r) (fullLayout layout) plot_config s)
                           \<lparr>ready := (ready s)((rcomp r) := True)\<rparr>)))"

text \<open>The \<^verbatim>\<open>catch\<close> callback: \<^verbatim>\<open>console.error('Plotly load failed:', err)\<close>.\<close>

definition on_rejected :: "page \<Rightarrow> page" where
  "on_rejected s = s\<lparr>console := console s @ [''Plotly load failed:'']\<rparr>"

text \<open>
  The state of a promise. A promise is named only after it was created; an index not
  yet created reads as pending.
\<close>

definition state_of :: "page \<Rightarrow> nat \<Rightarrow> pstate" where
  "state_of s p = (if p < length (promises s) then promises s ! p else Pending)"

text \<open>
  Running one reaction: it stays registered while its promise is pending; an exception
  of the \<^verbatim>\<open>then\<close> callback goes to the \<^verbatim>\<open>catch\<close> callback.
\<close>

definition react :: "reaction \<Rightarrow> page \<Rightarrow> page" where
  "react r s =
     (case state_of s (rpromise r) of
        Pending \<Rightarrow> s\<lparr>reactions := reactions s @ [r]\<rparr>
      | Fulfilled e \<Rightarrow> (case on_fulfilled r s of Inr s' \<Rightarrow> s' | Inl err \<Rightarrow> on_rejected s)
      | Rejected \<Rightarrow> on_rejected s)"

text \<open>A microtask checkpoint: the registered reactions run in registration order.\<close>

definition tick :: "page \<Rightarrow> page" where
  "tick s = fold react (reactions s) (s\<lparr>reactions := []\<rparr>)"

text \<open>
  The cleanup returned by the effect:
  \<^verbatim>\<open>if (divRef.current && window.Plotly) window.Plotly.purge(divRef.current)\<close>.
  \<open>purge\<close> is the unguarded call, which throws when \<^verbatim>\<open>window.Plotly\<close> is undefined.
\<close>

definition purge :: "nat \<Rightarrow> page \<Rightarrow> error + page" where
  "purge d s =
     (case windowPlotly s of
        None \<Rightarrow> Inl TypeError
      | Some e \<Rightarrow> Inr (s\<lparr>drawn := (drawn s)(d := None)\<rparr>))"

definition cleanup :: "nat \<Rightarrow> page \<Rightarrow> error + page" where
  "cleanup c s =
     (case divRef s c of
        None \<Rightarrow> Inr s
      | Some d \<Rightarrow> if windowPlotly s \<noteq> None then purge d s else Inr s)"

text \<open>
  What can happen on the page. \<open>Mount c name\<close>: the host renders instance \<open>c\<close> with chart
  \<open>name\<close>; unless the render returned the inline error, the container is attached to
  \<^verbatim>\<open>divRef\<close> and the effect runs. \<open>Cleanup c\<close>: the effect's cleanup runs. \<open>Detach c\<close>: the
  host removes the container and clears \<^verbatim>\<open>divRef\<close>. \<open>ScriptLoaded e\<close>, \<open>ScriptFailed\<close>:
  the outcome of the fetch. \<open>Tick\<close>: a microtask checkpoint. An exception that is not
  caught ends the run.
\<close>

datatype event =
    Mount nat string
  | Cleanup nat
  | Detach nat
  | ScriptLoaded nat
  | ScriptFailed
  | Tick

fun step :: "event \<Rightarrow> page \<Rightarrow> error + page" where
  "step (Mount c chartName) s =
     (let def = lookup_chart chartName
      in if falsy def then Inr s
         else effect c def (s\<lparr>divRef := (divRef s)(c := Some c)\<rparr>))"
| "step (Cleanup c) s = cleanup c s"
| "step (Detach c) s = Inr (s\<lparr>divRef := (divRef s)(c := None)\<rparr>)"
| "step (ScriptLoaded e) s = Inr (script_onload e s)"
| "step ScriptFailed s = Inr (script_onerror s)"
| "step Tick s = Inr (tick s)"

fun run :: "event list \<Rightarrow> page \<Rightarrow> error + page" where
  "run [] s = Inr s"
| "run (ev # evs) s = (case step ev s of Inl e \<Rightarrow> Inl e | Inr s' \<Rightarrow> run evs s')"

subsection \<open>The engine-load state machine\<close>

text \<open>
  The states of the specification's machine, read off the page state: nothing loaded and
  no load started; the memoized load pending; the engine available; the memoized load
  failed.
\<close>

datatype phase = Unloaded | Loading | Ready | LoadFailed

definition phase :: "page \<Rightarrow> phase" where
  "phase s =
     (case plotlyPromise s of
        None \<Rightarrow> if windowPlotly s = None then Unloaded else Ready
      | Some p \<Rightarrow>
          (case state_of s p of
             Pending \<Rightarrow> Loading
           | Fulfilled e \<Rightarrow> Ready
           | Rejected \<Rightarrow> LoadFailed))"

fun rank :: "phase \<Rightarrow> nat" where
  "rank Unloaded = 0"
| "rank Loading = 1"
| "rank Ready = 2"
| "rank LoadFailed = 2"

subsection \<open>The rectangular-grid invariant\<close>

definition traces :: "json \<Rightarrow> json list" where
  "traces d = (case field ''data'' d of Some (JArr ts) \<Rightarrow> ts | _ \<Rightarrow> [])"

definition is_grid_trace :: "json \<Rightarrow> bool" where
  "is_grid_trace t =
     (field ''type'' t = Some (JStr ''surface'') \<or> field ''type'' t = Some (JStr ''contour''))"

definition row_has :: "nat \<Rightarrow> json \<Rightarrow> bool" where
  "row_has n row = (case row of JArr cs \<Rightarrow> length cs = n | _ \<Rightarrow> False)"

text \<open>
  The invariant as the specification words it: the z-grid has as many rows as \<open>y\<close> has
  elements, and every row has as many elements as \<open>x\<close>.
\<close>

definition rectangular_grid :: "json \<Rightarrow> bool" where
  "rectangular_grid t =
     (case (field ''x'' t, field ''y'' t, field ''z'' t) of
        (Some (JArr xs), Some (JArr ys), Some (JArr zs)) \<Rightarrow>
          length zs = length ys \<and> (\<forall>row \<in> set zs. row_has (length xs) row)
      | _ \<Rightarrow> False)"

fun is_num :: "json \<Rightarrow> bool" where
  "is_num (JNum x) = True"
| "is_num _ = False"

definition is_vector :: "json option \<Rightarrow> bool" where
  "is_vector v = (case v of Some (JArr xs) \<Rightarrow> list_all is_num xs | _ \<Rightarrow> False)"

definition coords_1d :: "json \<Rightarrow> bool" where
  "coords_1d t = (is_vector (field ''x'' t) \<and> is_vector (field ''y'' t))"

text \<open>
  A parametric surface: \<open>x\<close> and \<open>y\<close> are grids of the shape of \<open>z\<close>, row by row, and
  all rows of \<open>z\<close> have one width.
\<close>

definition same_width :: "json \<Rightarrow> json \<Rightarrow> bool" where
  "same_width r r' =
     (case (r, r') of (JArr cs, JArr cs') \<Rightarrow> length cs = length cs' | _ \<Rightarrow> False)"

definition same_shape :: "json option \<Rightarrow> json option \<Rightarrow> bool" where
  "same_shape a b =
     (case (a, b) of
        (Some (JArr rs), Some (JArr rs')) \<Rightarrow> list_all2 same_width rs rs'
      | _ \<Rightarrow> False)"

definition parametric_grid :: "json \<Rightarrow> bool" where
  "parametric_grid t =
     (same_shape (field ''x'' t) (field ''z'' t)
      \<and> same_shape (field ''y'' t) (field ''z'' t)
      \<and> (case field ''z'' t of
            Some (JArr zs) \<Rightarrow> \<forall>r \<in> set zs. \<forall>r' \<in> set zs. same_width r r'
          | _ \<Rightarrow> False))"

text \<open>
  The invariant the factories keep: a surface or contour trace over one-dimensional
  \<open>x\<close> and \<open>y\<close> is a rectangular grid, any other one is a parametric surface.
\<close>

definition grid_ok :: "json \<Rightarrow> bool" where
  "grid_ok t =
     (is_grid_trace t \<longrightarrow> (if coords_1d t then rectangular_grid t else parametric_grid t))"

text \<open>
  The approximation at a positive argument is \<open>1 - q x * exp (- x\<^sup>2 / 2)\<close> with \<open>q x\<close> a
  rational function of \<open>x\<close>; the exponential lies between \<open>1 - x\<^sup>2 / 2\<close> and \<open>1\<close>.
\<close>

definition ncdf_q :: "real \<Rightarrow> real" where
  "ncdf_q x =
     (let t = 1 / (1 + 0.2316419 * \<bar>x\<bar>)
      in 0.3989422820 * t * (0.3193815300 + t * (- 0.3565637820 + t * (1.7814779370
                + t * (- 1.8212559780 + t * 1.3302744290)))))"


subsection \<open>Invariants of the loader and of the page\<close>

text \<open>
  What holds of the loader's part of the state at every moment. Before any fetch there
  is no memoized promise, and promises exist only as \<^verbatim>\<open>Promise.resolve(window.Plotly)\<close>
  of an engine the page already had. After the fetch there is exactly one promise, the
  memoized one, which is pending while the script is in flight, fulfilled with the
  engine the script defined, or rejected.
\<close>

definition loader_inv :: "page \<Rightarrow> bool" where
  "loader_inv s =
     (case plotlyPromise s of
        None \<Rightarrow>
          fetches s = 0 \<and> inflight s = []
          \<and> (case windowPlotly s of
                None \<Rightarrow> promises s = []
              | Some e \<Rightarrow> set (promises s) \<subseteq> {Fulfilled e})
      | Some p \<Rightarrow>
          p = 0 \<and> fetches s = 1
          \<and> ((promises s = [Pending] \<and> inflight s = [0] \<and> windowPlotly s = None)
             \<or> (promises s = [Rejected] \<and> inflight s = [] \<and> windowPlotly s = None)
             \<or> (inflight s = [] \<and> (case windowPlotly s of
                                       None \<Rightarrow> False
                                     | Some e \<Rightarrow> promises s = [Fulfilled e]))))"

text \<open>The loader memoizes: a promise is memoized already, or the next call will fetch.\<close>

definition memoizing :: "page \<Rightarrow> bool" where
  "memoizing s = (plotlyPromise s \<noteq> None \<or> windowPlotly s = None)"

text \<open>
  What holds of the whole page: the loader's invariant; every registered reaction waits
  for a promise that exists; a component is \<^verbatim>\<open>ready\<close> only when the engine is; while the
  load is pending some reaction waits for it; and once it has failed, the failure has
  been logged or a reaction that will log it is still registered.
\<close>

definition page_inv :: "page \<Rightarrow> bool" where
  "page_inv s =
     (loader_inv s
      \<and> list_all (\<lambda>r. rpromise r < length (promises s)) (reactions s)
      \<and> (phase s \<noteq> Ready \<longrightarrow> ready s = (\<lambda>c. False))
      \<and> (phase s = Loading \<longrightarrow> reactions s \<noteq> [])
      \<and> (phase s = LoadFailed \<longrightarrow>
            reactions s \<noteq> [] \<or> ''Plotly load failed:'' \<in> set (console s)))"

text \<open>The loader's part of the page state.\<close>

definition loader_of :: "page \<Rightarrow> nat option \<times> pstate list \<times> nat option \<times> nat \<times> nat list" where
  "loader_of s = (plotlyPromise s, promises s, windowPlotly s, fetches s, inflight s)"

text \<open>
  Moving forward: the rank of the state does not decrease, \<open>Ready\<close> and \<open>LoadFailed\<close> are
  kept, and a fetch is started only on leaving \<open>Unloaded\<close>.
\<close>

definition forward :: "page \<Rightarrow> page \<Rightarrow> bool" where
  "forward s s' =
     (rank (phase s) \<le> rank (phase s')
      \<and> (phase s = Ready \<longrightarrow> phase s' = Ready)
      \<and> (phase s = LoadFailed \<longrightarrow> phase s' = LoadFailed)
      \<and> (phase s \<noteq> Unloaded \<longrightarrow> fetches s' = fetches s))"

subsection \<open>linspace in exact arithmetic\<close>

text \<open>
  Without rounding the values are evenly spaced, the first is \<open>start\<close> and the last is
  \<open>end\<close>.
\<close>

lemma length_linspace_exact [simp]: "length (linspace_exact a b n) = n"
  by (simp add: linspace_exact_def)

lemma nth_linspace_exact:
  "i < n \<Longrightarrow> linspace_exact a b n ! i = a + (b - a) * real i / (real n - 1)"
  by (simp add: linspace_exact_def)

lemma hd_linspace_exact: "0 < n \<Longrightarrow> hd (linspace_exact a b n) = a"
  by (simp add: linspace_exact_def hd_map upt_conv_Cons)

lemma last_linspace_exact: "2 \<le> n \<Longrightarrow> last (linspace_exact a b n) = b"
proof -
  assume n: "2 \<le> n"
  then have "linspace_exact a b n \<noteq> []"
    by (metis length_linspace_exact list.size(3) not_numeral_le_zero)
  then have "last (linspace_exact a b n) = linspace_exact a b n ! (n - 1)"
    by (simp add: last_conv_nth)
  also have "\<dots> = a + (b - a) * real (n - 1) / (real n - 1)"
    using n by (simp add: nth_linspace_exact)
  also have "\<dots> = b"
    using n by (simp add: of_nat_diff)
  finally show ?thesis .
qed

lemma linspace_exact_step:
  assumes "Suc i < n"
  shows "linspace_exact a b n ! Suc i - linspace_exact a b n ! i = (b - a) / (real n - 1)"
proof -
  have "linspace_exact a b n ! Suc i = a + (b - a) * real (Suc i) / (real n - 1)"
    using assms by (simp only: nth_linspace_exact)
  moreover have "linspace_exact a b n ! i = a + (b - a) * real i / (real n - 1)"
    using assms by (simp add: nth_linspace_exact)
  ultimately have "linspace_exact a b n ! Suc i - linspace_exact a b n ! i
      = ((b - a) * real (Suc i) - (b - a) * real i) / (real n - 1)"
    by (simp add: diff_divide_distrib)
  also have "(b - a) * real (Suc i) - (b - a) * real i = b - a"
    by (simp add: algebra_simps)
  finally show ?thesis .
qed

subsection \<open>Rounding to binary64\<close>

lemma round_even_of_int [simp]: "round_even (of_int z) = z"
  by (simp add: round_even_def)

lemma round_even_near:
  assumes "of_int m - 1 / 2 < y" "y < of_int m + 1 / 2"
  shows "round_even y = m"
proof -
  have "\<lfloor>y\<rfloor> = m \<or> \<lfloor>y\<rfloor> = m - 1"
    using assms by linarith
  then show ?thesis
  proof
    assume f: "\<lfloor>y\<rfloor> = m"
    with assms(2) show ?thesis
      by (simp add: round_even_def)
  next
    assume f: "\<lfloor>y\<rfloor> = m - 1"
    with assms(1) show ?thesis
      by (simp add: round_even_def)
  qed
qed

lemma round_even_tie:
  assumes "y = of_int m + 1 / 2"
  shows "round_even y = (if even m then m else m + 1)"
proof -
  have "\<lfloor>y\<rfloor> = m"
    using assms by linarith
  then show ?thesis
    using assms by (simp add: round_even_def)
qed

lemma ulp_normal:
  assumes "0 < x" "2 powr of_int e \<le> x" "x < 2 powr (of_int e + 1)" "- 1022 \<le> e"
  shows "ulp x = 2 powr (of_int e - 52)"
proof -
  have "\<lfloor>log 2 x\<rfloor> = e"
    using assms(1-3) by (simp add: floor_log_eq_powr_iff)
  with assms(4) show ?thesis
    by (simp add: ulp_def max_def)
qed

lemma flp_near:
  assumes "ulp x = u" "0 < u"
    and "of_int m - 1 / 2 < x / u" "x / u < of_int m + 1 / 2"
    and "u * of_int m < 2 ^ 1024"
  shows "flp x = Fin (u * of_int m)"
  using assms round_even_near [of m "x / u"] by (simp add: flp_def)

lemma flp_tie:
  assumes "ulp x = u" "x / u = of_int m + 1 / 2" "odd m"
    and "u * of_int (m + 1) < 2 ^ 1024"
  shows "flp x = Fin (u * of_int (m + 1))"
  using assms round_even_tie [of "x / u" m] by (simp add: flp_def)

lemma flp_tie_even:
  assumes "ulp x = u" "x / u = of_int m + 1 / 2" "even m"
    and "u * of_int m < 2 ^ 1024"
  shows "flp x = Fin (u * of_int m)"
  using assms round_even_tie [of "x / u" m] by (simp add: flp_def)

text \<open>The integers below \<open>2\<^sup>5\<^sup>3\<close> are binary64 values.\<close>

lemma fl_nat:
  assumes "k < 2 ^ 53"
  shows "fl (real k) = Fin (real k)"
proof (cases "k = 0")
  case True
  then show ?thesis by (simp add: fl_def)
next
  case False
  define x where "x = real k"
  define e where "e = \<lfloor>log 2 x\<rfloor>"
  have x: "1 \<le> x" "x < 2 ^ 53"
    using False assms by (simp_all add: x_def)
  have "0 \<le> log 2 x"
    using x(1) by simp
  then have e0: "0 \<le> e"
    by (simp add: e_def)
  have "log 2 x < 53"
    using x by (simp add: log_less_iff)
  then have e52: "e \<le> 52"
    by (simp add: e_def floor_le_iff)
  define j where "j = nat (52 - e)"
  have j: "of_int e - 52 = - real j"
    using e52 by (simp add: j_def)
  have u: "ulp x = 1 / 2 ^ j"
    using e0 unfolding ulp_def e_def [symmetric]
    by (simp add: max_def j powr_minus powr_realpow inverse_eq_divide)
  have q: "x / ulp x = of_int (int (k * 2 ^ j))"
    unfolding u by (simp add: x_def)
  have r: "ulp x * of_int (round_even (x / ulp x)) = x"
    unfolding q round_even_of_int unfolding u by (simp add: x_def)
  have "x < 2 ^ 1024"
    using x(2) by (rule less_trans) simp
  then have "flp x = Fin x"
    by (simp add: flp_def r)
  then show ?thesis
    using x(1) by (simp add: fl_def x_def)
qed

lemma to_number_small: "k < 2 ^ 53 \<Longrightarrow> to_number k = Fin (real k)"
  by (simp add: to_number_def fl_nat)


text \<open>Evaluating the rounding at given values.\<close>

lemma fl_Math_PI: "fl Math_PI = Fin Math_PI"
proof -
  have u: "ulp Math_PI = 2 powr (of_int 1 - 52)"
    by (rule ulp_normal) (simp_all add: Math_PI_def)
  have "flp Math_PI = Fin (2 powr (of_int 1 - 52) * of_int 7074237752028440)"
    by (rule flp_near [OF u]) (simp_all add: Math_PI_def powr_minus)
  then show ?thesis
    by (simp add: fl_def Math_PI_def powr_minus)
qed

lemma fl_PI_299: "fl (Math_PI * 299) = Fin (8262488624439467 / 2 ^ 43)"
proof -
  have u: "ulp (Math_PI * 299) = 2 powr (of_int 9 - 52)"
    by (rule ulp_normal) (simp_all add: Math_PI_def)
  have "flp (Math_PI * 299) = Fin (2 powr (of_int 9 - 52) * of_int 8262488624439467)"
    by (rule flp_near [OF u]) (simp_all add: Math_PI_def powr_minus)
  then show ?thesis
    by (simp add: fl_def Math_PI_def powr_minus)
qed

lemma fl_PI_299_div: "fl (8262488624439467 / 2 ^ 43 / 299) = Fin Math_PI"
proof -
  let ?x = "8262488624439467 / 2 ^ 43 / 299 :: real"
  have u: "ulp ?x = 2 powr (of_int 1 - 52)"
    by (rule ulp_normal) simp_all
  have "flp ?x = Fin (2 powr (of_int 1 - 52) * of_int 7074237752028440)"
    by (rule flp_near [OF u]) (simp_all add: powr_minus)
  then show ?thesis
    by (simp add: fl_def Math_PI_def powr_minus)
qed

text \<open>\<open>Math.PI\<close> against \<open>pi\<close>, by Machin's formula and the arctangent series.\<close>

lemma arctan_bounds:
  assumes "0 \<le> x" "x < 1"
  shows arctan_lower_bound:
    "(\<Sum>k<2 * n. (- 1) ^ k * (1 / real (k * 2 + 1) * x ^ (k * 2 + 1))) \<le> arctan x"
    and arctan_upper_bound:
    "arctan x \<le> (\<Sum>k<2 * n + 1. (- 1) ^ k * (1 / real (k * 2 + 1) * x ^ (k * 2 + 1)))"
proof -
  let ?a = "\<lambda>k. 1 / real (k * 2 + 1) * x ^ (k * 2 + 1)"
  have tendsto_zero: "?a \<longlonglongrightarrow> 0"
  proof (rule tendsto_eq_rhs)
    show "(\<lambda>k. 1 / real (k * 2 + 1) * x ^ (k * 2 + 1)) \<longlonglongrightarrow> 0 * 0"
      using assms
      by (intro tendsto_mult real_tendsto_divide_at_top)
        (auto simp: filterlim_sequentially_iff_filterlim_real
          intro!: real_tendsto_divide_at_top tendsto_power_zero filterlim_real_sequentially
          tendsto_eq_intros filterlim_at_top_mult_tendsto_pos filterlim_tendsto_add_at_top)
  qed simp
  have nonneg: "0 \<le> ?a n" for n
    by (force intro!: divide_nonneg_nonneg mult_nonneg_nonneg zero_le_power assms)
  have le: "?a (Suc n) \<le> ?a n" for n
    by (rule mult_mono[OF _ power_decreasing]) (auto simp: field_split_simps assms less_imp_le)
  from summable_Leibniz'(4)[of ?a, OF tendsto_zero nonneg le, of n]
    summable_Leibniz'(2)[of ?a, OF tendsto_zero nonneg le, of n]
    assms
  show "(\<Sum>k<2*n. (- 1)^ k * ?a k) \<le> arctan x" "arctan x \<le> (\<Sum>k<2 * n + 1. (- 1)^ k * ?a k)"
    by (auto simp: arctan_series)
qed

lemma pi_machin: "pi = 16 * arctan (1 / 5) - 4 * arctan (1 / 239)"
  using machin by simp

lemma pi_approx: "3.141592653588 \<le> pi" "pi \<le> 3.1415926535899"
  unfolding pi_machin
  using arctan_bounds [of "1 / 5" 4] arctan_bounds [of "1 / 239" 4]
  by (simp_all add: eval_nat_numeral)

lemma Math_PI_near_pi: "\<bar>Math_PI - pi\<bar> < 1 / 10 ^ 9"
proof -
  define e :: real where "e = 1 / 10 ^ 9"
  have "Math_PI - pi < e" "- e < Math_PI - pi"
    using pi_approx by (simp_all add: Math_PI_def e_def)
  then have "\<bar>Math_PI - pi\<bar> < e"
    by linarith
  then show ?thesis
    unfolding e_def .
qed

subsection \<open>linspace in double arithmetic\<close>

text \<open>The exact reading has the length of the array the engine computes.\<close>

lemma linspace_length_agrees:
  "n < 2 ^ 32 \<Longrightarrow>
     \<exists>xs. linspace a b n = Inr xs \<and> length xs = length (linspace_exact a' b' n)"
  by (simp add: linspace_def)

lemma flp_tie_1e16: "flp 9999999999999999 = Fin 10000000000000000"
proof -
  have u: "ulp 9999999999999999 = 2 powr (of_int 53 - 52)"
    by (rule ulp_normal) simp_all
  have "flp 9999999999999999 = Fin (2 powr (of_int 53 - 52) * of_int (4999999999999999 + 1))"
    by (rule flp_tie [OF u]) simp_all
  then show ?thesis
    by simp
qed

lemma flp_1e16: "flp 10000000000000000 = Fin 10000000000000000"
proof -
  have u: "ulp 10000000000000000 = 2 powr (of_int 53 - 52)"
    by (rule ulp_normal) simp_all
  have "flp 10000000000000000 = Fin (2 powr (of_int 53 - 52) * of_int 5000000000000000)"
    by (rule flp_near [OF u]) simp_all
  then show ?thesis
    by simp
qed

text \<open>
  C4, as stated, fails: in double arithmetic the last element need not equal \<open>end\<close>.
  From \<open>10\<^sup>1\<^sup>6\<close> to \<open>1\<close> in two steps, \<open>end - start\<close> rounds to \<open>- 10\<^sup>1\<^sup>6\<close> and the last
  element is \<open>0\<close>.
\<close>

theorem linspace_last_not_end:
  "fl 10000000000000000 = Fin 10000000000000000
   \<and> fl 1 = Fin 1
   \<and> linspace (Fin 10000000000000000) (Fin 1) 2 = Inr [Fin 10000000000000000, Fin 0]
   \<and> last [Fin 10000000000000000, Fin 0] \<noteq> Fin 1"
proof -
  let ?a = "Fin 10000000000000000"
  have a: "fl 10000000000000000 = ?a"
    by (simp add: fl_def flp_1e16)
  have one: "fl 1 = Fin 1"
    using fl_nat [of 1] by simp
  have d: "num_sub (Fin 1) ?a = Fin (- 10000000000000000)"
    by (simp add: num_sub_def fl_def flp_tie_1e16)
  have n: "to_number 0 = Fin 0" "to_number 1 = Fin 1" "to_number 2 = Fin 2"
    using to_number_small [of 0] to_number_small [of 1] to_number_small [of 2] by simp_all
  have q: "num_sub (Fin 2) (Fin 1) = Fin 1"
    using one by (simp add: num_sub_def)
  have m: "fl (- 10000000000000000) = Fin (- 10000000000000000)"
    by (simp add: fl_def flp_1e16)
  have z: "fl 0 = Fin 0"
    by (simp add: fl_def)
  have "[0..<2] = [0, Suc 0]"
    by (simp add: upt_rec)
  then have "linspace ?a (Fin 1) 2 = Inr [?a, Fin 0]"
    using n by (simp add: linspace_def d q z m a)
  with a one show ?thesis
    by simp
qed

text \<open>
  C4, amended. For every finite binary64 \<open>start\<close> and \<open>end\<close> whose difference does not
  overflow and every count with \<open>2 \<le> count < 2\<^sup>3\<^sup>2\<close>, \<open>linspace start end count\<close> returns a
  sequence of exactly \<open>count\<close> values whose \<open>i\<close>-th element is
  \<open>start + (end - start) * i / (count - 1)\<close> evaluated in double arithmetic, each
  operation rounded, and whose first element equals \<open>start\<close>. In exact arithmetic the
  same formula gives \<open>count\<close> evenly spaced values of which the first is \<open>start\<close> and
  the last is \<open>end\<close>; with the rounding the last element need not equal \<open>end\<close>. In
  particular \<open>linspace 0 Math.PI 300\<close> has length 300, first element 0 and last element
  \<open>Math.PI\<close>, which is within \<open>10\<^sup>-\<^sup>9\<close> of \<open>pi\<close>.
\<close>

theorem linspace_spec:
  assumes "2 \<le> n" "n < 2 ^ 32" "fl a = Fin a" "num_sub (Fin b) (Fin a) = Fin d"
  shows "(\<exists>xs. linspace (Fin a) (Fin b) n = Inr xs
           \<and> length xs = n
           \<and> (\<forall>i<n. xs ! i =
                 num_add (Fin a) (num_div (num_mul (Fin d) (Fin (real i))) (Fin (real n - 1))))
           \<and> hd xs = Fin a)
       \<and> (length (linspace_exact a b n) = n
           \<and> (\<forall>i<n. linspace_exact a b n ! i = a + (b - a) * real i / (real n - 1))
           \<and> (\<forall>i. Suc i < n \<longrightarrow>
                  linspace_exact a b n ! Suc i - linspace_exact a b n ! i = (b - a) / (real n - 1))
           \<and> hd (linspace_exact a b n) = a
           \<and> last (linspace_exact a b n) = b)
       \<and> (\<exists>xs. linspace (Fin 0) (Fin Math_PI) 300 = Inr xs
           \<and> length xs = 300 \<and> hd xs = Fin 0 \<and> last xs = Fin Math_PI)
       \<and> \<bar>Math_PI - pi\<bar> < 1 / 10 ^ 9"
proof -
  let ?f = "\<lambda>i. num_add (Fin a) (num_div (num_mul (Fin d) (Fin (real i))) (Fin (real n - 1)))"
  have n53: "n < 2 ^ 53"
    using assms(2) by (rule less_trans) simp
  have idx: "to_number i = Fin (real i)" if "i < n" for i
    using that n53 by (intro to_number_small) simp
  have "fl (real (n - 1)) = Fin (real (n - 1))"
    using n53 by (intro fl_nat) simp
  then have q: "num_sub (to_number n) (Fin 1) = Fin (real n - 1)"
    using assms(1) n53 by (simp add: num_sub_def to_number_small of_nat_diff)
  have xs: "linspace (Fin a) (Fin b) n = Inr (map ?f [0..<n])"
    using assms(2) idx by (simp add: linspace_def assms(4) q)
  have "?f 0 = Fin a"
    using assms(1,3) by (simp add: fl_def)
  then have "hd (map ?f [0..<n]) = Fin a"
    using assms(1) by (simp add: hd_map upt_conv_Cons)
  with xs have A: "\<exists>xs. linspace (Fin a) (Fin b) n = Inr xs
      \<and> length xs = n \<and> (\<forall>i<n. xs ! i = ?f i) \<and> hd xs = Fin a"
    by simp
  have B: "length (linspace_exact a b n) = n
      \<and> (\<forall>i<n. linspace_exact a b n ! i = a + (b - a) * real i / (real n - 1))
      \<and> (\<forall>i. Suc i < n \<longrightarrow>
             linspace_exact a b n ! Suc i - linspace_exact a b n ! i = (b - a) / (real n - 1))
      \<and> hd (linspace_exact a b n) = a
      \<and> last (linspace_exact a b n) = b"
    using assms(1) linspace_exact_step [of _ n a b]
    by (simp add: nth_linspace_exact hd_linspace_exact last_linspace_exact)
  let ?g = "\<lambda>i. num_add (Fin 0) (num_div (num_mul (num_sub (Fin Math_PI) (Fin 0)) (to_number i))
      (num_sub (to_number 300) (Fin 1)))"
  have z: "fl 0 = Fin 0"
    by (simp add: fl_def)
  have d: "num_sub (Fin Math_PI) (Fin 0) = Fin Math_PI"
    by (simp add: num_sub_def fl_Math_PI)
  have q: "num_sub (to_number 300) (Fin 1) = Fin 299"
    using to_number_small [of 300] fl_nat [of 299] by (simp add: num_sub_def)
  have i0: "to_number 0 = Fin 0" and i299: "to_number 299 = Fin 299"
    using to_number_small [of 0] to_number_small [of 299] by simp_all
  have first: "?g 0 = Fin 0"
    by (simp add: d q i0 z)
  have s1: "num_mul (Fin Math_PI) (Fin 299) = Fin (8262488624439467 / 2 ^ 43)"
    by (simp add: fl_PI_299)
  have s2: "num_div (Fin (8262488624439467 / 2 ^ 43)) (Fin 299) = Fin Math_PI"
    using fl_PI_299_div by simp
  have s3: "num_add (Fin 0) (Fin Math_PI) = Fin Math_PI"
    by (simp add: fl_Math_PI)
  have last: "?g 299 = Fin Math_PI"
    by (simp only: d q i299 s1 s2 s3)
  let ?xs = "map ?g [0..<300]"
  have "linspace (Fin 0) (Fin Math_PI) 300 = Inr ?xs"
    by (simp add: linspace_def)
  moreover have "hd ?xs = Fin 0"
    using first by (simp add: hd_map upt_conv_Cons del: upt_Suc)
  moreover have "last ?xs = ?xs ! 299"
    by (simp add: last_conv_nth)
  then have "last ?xs = Fin Math_PI"
    using last by simp
  ultimately have C: "\<exists>xs. linspace (Fin 0) (Fin Math_PI) 300 = Inr xs
      \<and> length xs = 300 \<and> hd xs = Fin 0 \<and> last xs = Fin Math_PI"
    by (intro exI [of _ ?xs]) simp
  show ?thesis
    by (rule conjI [OF A conjI [OF B conjI [OF C Math_PI_near_pi]]])
qed

theorem linspace_spec_witness:
  "(2::nat) \<le> 3 \<and> (3::nat) < 2 ^ 32 \<and> fl 0 = Fin 0 \<and> num_sub (Fin 1) (Fin 0) = Fin 1
   \<and> (\<exists>xs. linspace (Fin 0) (Fin 1) 3 = Inr xs \<and> length xs = 3 \<and> hd xs = Fin 0)
   \<and> last (linspace_exact 0 1 3) = 1"
proof -
  have a: "fl 0 = Fin 0"
    by (simp add: fl_def)
  have b: "num_sub (Fin 1) (Fin 0) = Fin 1"
    using fl_nat [of 1] by (simp add: num_sub_def)
  note t = linspace_spec [of 3 0 1 1, OF _ _ a b]
  have "\<exists>xs. linspace (Fin 0) (Fin 1) 3 = Inr xs \<and> length xs = 3 \<and> hd xs = Fin 0"
    using t by auto
  moreover have "last (linspace_exact 0 1 3) = 1"
    using t by simp
  ultimately show ?thesis
    using a b by simp
qed

text \<open>
  The same with ordinary arguments: from \<open>0.02\<close> (the binary64 value of the literal,
  \<open>5764607523034235 / 2\<^sup>5\<^sup>8\<close>) to \<open>2\<close> in four steps the last element is \<open>2 - 2\<^sup>-\<^sup>5\<^sup>2\<close>.
\<close>

lemma linspace_last_below_end:
  "fl (5764607523034235 / 2 ^ 58) = Fin (5764607523034235 / 2 ^ 58)
   \<and> (\<exists>xs. linspace (Fin (5764607523034235 / 2 ^ 58)) (Fin 2) 4 = Inr xs
         \<and> last xs = Fin (2 - 1 / 2 ^ 52))"
proof -
  let ?s = "5764607523034235 / 2 ^ 58 :: real"
  let ?d = "8917127262193582 / 2 ^ 52 :: real"
  let ?t = "6687845446645186 / 2 ^ 50 :: real"
  let ?q = "8917127262193581 / 2 ^ 52 :: real"
  have s: "fl ?s = Fin ?s"
  proof -
    have u: "ulp ?s = 2 powr (of_int (- 6) - 52)"
      by (rule ulp_normal) (simp_all add: powr_minus)
    have "flp ?s = Fin (2 powr (of_int (- 6) - 52) * of_int 5764607523034235)"
      by (rule flp_near [OF u]) (simp_all add: powr_minus)
    then show ?thesis
      by (simp add: fl_def powr_minus)
  qed
  have d: "fl (2 - ?s) = Fin ?d"
  proof -
    have u: "ulp (2 - ?s) = 2 powr (of_int 0 - 52)"
      by (rule ulp_normal) simp_all
    have "flp (2 - ?s) = Fin (2 powr (of_int 0 - 52) * of_int 8917127262193582)"
      by (rule flp_near [OF u]) (simp_all add: powr_minus)
    then show ?thesis
      by (simp add: fl_def powr_minus)
  qed
  have t: "fl (?d * 3) = Fin ?t"
  proof -
    have u: "ulp (?d * 3) = 2 powr (of_int 2 - 52)"
      by (rule ulp_normal) simp_all
    have "flp (?d * 3) = Fin (2 powr (of_int 2 - 52) * of_int 6687845446645186)"
      by (rule flp_tie_even [OF u]) (simp_all add: powr_minus)
    then show ?thesis
      by (simp add: fl_def powr_minus)
  qed
  have q: "fl (?t / 3) = Fin ?q"
  proof -
    have u: "ulp (?t / 3) = 2 powr (of_int 0 - 52)"
      by (rule ulp_normal) simp_all
    have "flp (?t / 3) = Fin (2 powr (of_int 0 - 52) * of_int 8917127262193581)"
      by (rule flp_near [OF u]) (simp_all add: powr_minus)
    then show ?thesis
      by (simp add: fl_def powr_minus)
  qed
  have l: "fl (?s + ?q) = Fin (2 - 1 / 2 ^ 52)"
  proof -
    have u: "ulp (?s + ?q) = 2 powr (of_int 0 - 52)"
      by (rule ulp_normal) simp_all
    have "flp (?s + ?q) = Fin (2 powr (of_int 0 - 52) * of_int 9007199254740991)"
      by (rule flp_near [OF u]) (simp_all add: powr_minus)
    then show ?thesis
      by (simp add: fl_def powr_minus)
  qed
  let ?g = "\<lambda>i. num_add (Fin ?s) (num_div (num_mul (num_sub (Fin 2) (Fin ?s)) (to_number i))
      (num_sub (to_number 4) (Fin 1)))"
  have s1: "num_sub (Fin 2) (Fin ?s) = Fin ?d"
    using d by (simp add: num_sub_def)
  have s2: "num_sub (to_number 4) (Fin 1) = Fin 3" and s3: "to_number 3 = Fin 3"
    using to_number_small [of 4] to_number_small [of 3] fl_nat [of 3]
    by (simp_all add: num_sub_def)
  have s4: "num_mul (Fin ?d) (Fin 3) = Fin ?t"
    using t by simp
  have s5: "num_div (Fin ?t) (Fin 3) = Fin ?q"
    using q by simp
  have s6: "num_add (Fin ?s) (Fin ?q) = Fin (2 - 1 / 2 ^ 52)"
    using l by simp
  have g3: "?g 3 = Fin (2 - 1 / 2 ^ 52)"
    by (simp only: s1 s2 s3 s4 s5 s6)
  let ?xs = "map ?g [0..<4]"
  have "linspace (Fin ?s) (Fin 2) 4 = Inr ?xs"
    by (simp add: linspace_def)
  moreover have "last ?xs = ?xs ! 3"
    by (simp add: last_conv_nth)
  then have "last ?xs = Fin (2 - 1 / 2 ^ 52)"
    using g3 by simp
  ultimately show ?thesis
    using s by blast
qed

subsection \<open>The normal distribution\<close>

text \<open>
  C10. The normal CDF approximation is symmetric about zero: for every \<open>x > 0\<close>,
  \<open>normCDF x + normCDF (- x) = 1\<close>, the positive branch returning \<open>1 - p\<close> and the
  negative branch the same \<open>p\<close>; so \<open>normCDF\<close> is determined everywhere by its values
  on the non-positive reals.
\<close>

theorem normCDF_symmetric:
  "(0 < x \<longrightarrow> normCDF x + normCDF (- x) = 1)
   \<and> normCDF x = (if 0 < x then 1 - normCDF (- x) else normCDF x)"
  by (simp add: normCDF_def Let_def)

theorem normCDF_symmetric_witness:
  "(0::real) < 1 \<and> normCDF 1 + normCDF (- 1) = 1"
  using normCDF_symmetric [of 1] by simp

subsection \<open>The rectangular-grid invariant of the factories\<close>

lemma linspace_exact_nonempty [simp]: "0 < n \<Longrightarrow> linspace_exact a b n \<noteq> []"
  by (metis length_linspace_exact list.size(3) less_numeral_extra(3))

lemma nums_conv: "nums xs = JArr (map JNum xs)"
  by (simp add: nums_def)

lemma grid_conv: "grid rows = JArr (map (\<lambda>r. JArr (map JNum r)) rows)"
  by (simp add: grid_def nums_def)

lemmas grid_defs = nums_conv grid_conv traces_def Let_def
  grid_ok_def is_grid_trace_def coords_1d_def is_vector_def parametric_grid_def
  rectangular_grid_def same_shape_def same_width_def row_has_def list_all_iff
  list_all2_map1 list_all2_map2 list_all2_same

lemma boxMesh_grid_ok: "grid_ok (boxMesh x0 x1 y0 y1 z0 z1 color)"
  by (simp add: grid_ok_def boxMesh_def is_grid_trace_def)

lemma riemann_sum_grid: "\<forall>t \<in> set (traces (riemann_sum ())). grid_ok t"
proof -
  have "grid_ok (JObj ((''type'', JStr ''scatter3d'') # ps))" for ps
    by (simp add: grid_ok_def is_grid_trace_def)
  then show ?thesis
    by (simp add: riemann_sum_def traces_def Let_def boxMesh_grid_ok)
qed

lemma surface_revolution_grid: "\<forall>t \<in> set (traces (surface_revolution ())). grid_ok t"
  by (simp add: surface_revolution_def grid_defs)

lemma coordinates_3d_grid: "\<forall>t \<in> set (traces (coordinates_3d ())). grid_ok t"
  by (simp add: coordinates_3d_def grid_defs)

lemma helix_tangent_grid: "\<forall>t \<in> set (traces (helix_tangent ())). grid_ok t"
  by (simp add: helix_tangent_def grid_defs)

lemma multivariable_surface_grid:
  "\<forall>t \<in> set (traces (multivariable_surface ())). grid_ok t"
  by (simp add: multivariable_surface_def grid_defs)

lemma partial_derivatives_grid: "\<forall>t \<in> set (traces (partial_derivatives ())). grid_ok t"
  by (simp add: partial_derivatives_def grid_defs)

lemma tangent_plane_grid: "\<forall>t \<in> set (traces (tangent_plane ())). grid_ok t"
  by (simp add: tangent_plane_def grid_defs)

lemma gradient_vectors_grid: "\<forall>t \<in> set (traces (gradient_vectors ())). grid_ok t"
  by (simp add: gradient_vectors_def grid_defs case_prod_beta)

lemma critical_points_grid: "\<forall>t \<in> set (traces (critical_points ())). grid_ok t"
  by (simp add: critical_points_def dot_def grid_defs)

lemma double_integral_grid: "\<forall>t \<in> set (traces (double_integral ())). grid_ok t"
  by (simp add: double_integral_def grid_defs)

lemma coordinate_systems_grid: "\<forall>t \<in> set (traces (coordinate_systems ())). grid_ok t"
  by (simp add: coordinate_systems_def grid_defs)

lemma vector_field_3d_grid: "\<forall>t \<in> set (traces (vector_field_3d ())). grid_ok t"
  by (simp add: vector_field_3d_def grid_defs case_prod_beta)

lemma black_scholes_grid: "\<forall>t \<in> set (traces (black_scholes ())). grid_ok t"
  by (simp add: black_scholes_def grid_defs)

text \<open>
  C1, as stated, fails: the cylinder of \<open>coordinate-systems\<close> is a surface trace whose
  \<open>x\<close> is a grid of 30 rows, while every row of its \<open>z\<close> has 80 elements.
\<close>

theorem cylinder_not_rectangular:
  "map_of CHARTS ''coordinate-systems'' = Some coordinate_systems
   \<and> is_grid_trace (traces (coordinate_systems ()) ! 0)
   \<and> \<not> rectangular_grid (traces (coordinate_systems ()) ! 0)"
  by (simp add: CHARTS_def coordinate_systems_def grid_defs)

text \<open>
  C1, amended. For every one of the 13 chart identifiers, every surface or contour
  trace of the descriptor its factory returns satisfies the rectangular-grid invariant
  when its \<open>x\<close> and \<open>y\<close> are one-dimensional sequences (the z-grid has as many rows as
  \<open>y\<close> has elements and every row as many elements as \<open>x\<close>), and is otherwise a
  parametric surface whose \<open>x\<close>, \<open>y\<close> and \<open>z\<close> are grids of one common rectangular shape.
\<close>

theorem charts_grid_invariant:
  "\<forall>name \<in> set chart_ids. \<forall>p. map_of CHARTS name = Some p \<longrightarrow>
     (\<forall>t \<in> set (traces (p ())).
        is_grid_trace t \<longrightarrow> (if coords_1d t then rectangular_grid t else parametric_grid t))"
proof -
  have "\<forall>name \<in> set chart_ids. \<forall>p. map_of CHARTS name = Some p \<longrightarrow>
      (\<forall>t \<in> set (traces (p ())). grid_ok t)"
    by (simp add: chart_ids_def CHARTS_def riemann_sum_grid surface_revolution_grid
        coordinates_3d_grid helix_tangent_grid multivariable_surface_grid
        partial_derivatives_grid tangent_plane_grid gradient_vectors_grid
        critical_points_grid double_integral_grid coordinate_systems_grid
        vector_field_3d_grid black_scholes_grid)
  then show ?thesis
    by (simp add: grid_ok_def)
qed

theorem charts_grid_invariant_witness:
  "''black-scholes'' \<in> set chart_ids
   \<and> map_of CHARTS ''black-scholes'' = Some black_scholes
   \<and> traces (black_scholes ()) ! 0 \<in> set (traces (black_scholes ()))
   \<and> is_grid_trace (traces (black_scholes ()) ! 0)
   \<and> coords_1d (traces (black_scholes ()) ! 0)
   \<and> rectangular_grid (traces (black_scholes ()) ! 0)"
proof -
  have a: "''black-scholes'' \<in> set chart_ids"
    by (simp add: chart_ids_def CHARTS_def)
  have b: "map_of CHARTS ''black-scholes'' = Some black_scholes"
    by (simp add: CHARTS_def)
  have c: "traces (black_scholes ()) ! 0 \<in> set (traces (black_scholes ()))"
    by (simp add: black_scholes_def traces_def Let_def)
  have d: "is_grid_trace (traces (black_scholes ()) ! 0)"
    by (simp add: black_scholes_def traces_def Let_def is_grid_trace_def)
  have e: "coords_1d (traces (black_scholes ()) ! 0)"
    by (simp add: black_scholes_def grid_defs)
  from charts_grid_invariant a b c d e
  have "rectangular_grid (traces (black_scholes ()) ! 0)"
    by metis
  with a b c d e show ?thesis
    by simp
qed


subsection \<open>Registry lookup\<close>

lemma lookup_chart_own:
  "name \<in> set chart_ids \<Longrightarrow> \<exists>p. map_of CHARTS name = Some p \<and> lookup_chart name = Producer p"
  by (auto simp: chart_ids_def lookup_chart_def CHARTS_def)

lemma lookup_chart_missing:
  assumes "name \<notin> set chart_ids" "name \<notin> set object_prototype_methods" "name \<noteq> ''__proto__''"
  shows "lookup_chart name = Undefined"
proof -
  have "map_of CHARTS name = None"
    using assms(1) by (simp add: chart_ids_def map_of_eq_None_iff)
  then show ?thesis
    using assms(2,3) by (simp add: lookup_chart_def)
qed

lemma render_not_found:
  assumes "name \<notin> set chart_ids" "name \<notin> set object_prototype_methods" "name \<noteq> ''__proto__''"
  shows "PlotlyChart_render s c name = Inr (ChartNotFound name)" and "step (Mount c name) s = Inr s"
  using lookup_chart_missing [OF assms]
  by (simp_all add: PlotlyChart_render_def falsy_def)

lemma render_own:
  assumes "name \<in> set chart_ids"
  shows "PlotlyChart_render s c name \<noteq> Inr (ChartNotFound name)"
proof -
  from lookup_chart_own [OF assms] obtain p where "lookup_chart name = Producer p"
    by blast
  then show ?thesis
    by (simp add: PlotlyChart_render_def falsy_def call_def_def Let_def)
qed

text \<open>
  C3 at the names an object literal inherits. \<^verbatim>\<open>constructor\<close> is not a key of the
  registry, yet the lookup is truthy: the component renders the "Loading" placeholder
  instead of the inline error, the effect registers a reaction without a layout, and
  when the engine has loaded that reaction fails and is logged, the placeholder staying
  for good. For \<^verbatim>\<open>__proto__\<close> the effect calls a value that is not a function, and the
  exception leaves the component.
\<close>

theorem inherited_name_not_reported:
  "''constructor'' \<notin> set chart_ids
   \<and> lookup_chart ''constructor'' = ProtoMethod ''constructor''
   \<and> PlotlyChart_render (init None) 0 ''constructor'' = Inr (ChartView True (JNum 0))
   \<and> (case run [Mount 0 ''constructor'', ScriptLoaded 1, Tick] (init None) of
         Inl e \<Rightarrow> False
       | Inr s \<Rightarrow> console s = [''Plotly load failed:''] \<and> \<not> ready s 0 \<and> drawn s 0 = None)
   \<and> ''__proto__'' \<notin> set chart_ids
   \<and> PlotlyChart_render (init None) 0 ''__proto__'' = Inr (ChartView True (JNum 0))
   \<and> step (Mount 0 ''__proto__'') (init None) = Inl TypeError"
  by (simp add: chart_ids_def CHARTS_def lookup_chart_def object_prototype_methods_def
      PlotlyChart_render_def falsy_def init_def effect_def call_def_def loadPlotly_def
      new_promise_def script_onload_def settle_def tick_def react_def state_of_def
      on_fulfilled_def on_rejected_def)


subsection \<open>The layout handed to the engine\<close>




















subsection \<open>What the effect registers and the render reads\<close>

lemma effect_producer:
  "\<exists>s'. effect c (Producer p) s = Inr s'
     \<and> rcomp (last (reactions s')) = c
     \<and> rdata (last (reactions s')) = field ''data'' (p ())
     \<and> rlayout (last (reactions s')) = field ''layout'' (p ())"
  by (simp add: effect_def call_def_def loadPlotly_def new_promise_def Let_def
      split: option.split)

lemma render_ready_producer:
  "ready s c \<Longrightarrow> lookup_chart name = Producer p \<Longrightarrow>
     PlotlyChart_render s c name =
       Inr (ChartView False
              (or_else (Option.bind (field ''layout'' (p ())) (field ''height'')) (JNum 500)))"
  by (simp add: PlotlyChart_render_def falsy_def call_def_def Let_def)

subsection \<open>Mounting the descriptors of the registry\<close>




subsection \<open>The option pricer at the money\<close>

lemma sqrt_eps: "sqrt (1 / 10 ^ 6) = (1 / 10 ^ 3 :: real)"
  by (rule real_sqrt_unique) (simp_all add: power2_eq_square)

lemma clamp_eps: "t \<le> 1 / 10 ^ 6 \<Longrightarrow> max t (1 / 10 ^ 6) = (1 / 10 ^ 6 :: real)"
  by (simp add: max_def)

lemma delta_atm: "t \<le> 1 / 10 ^ 6 \<Longrightarrow> delta 100 t = normCDF (7 / 20000)"
  unfolding delta_def Let_def bs_K_def bs_r_def bs_sigma_def
  by (simp only: clamp_eps sqrt_eps) simp

lemma bsCall_atm:
  "t \<le> 1 / 10 ^ 6 \<Longrightarrow>
     bsCall 100 t = 100 * normCDF (7 / 20000)
                    - 100 * exp (- (1 / 20000000)) * normCDF (3 / 20000)"
  unfolding bsCall_def Let_def bs_K_def bs_r_def bs_sigma_def
  by (simp only: clamp_eps sqrt_eps) simp

lemma normCDF_pos: "0 < x \<Longrightarrow> normCDF x = 1 - ncdf_q x * exp (- x * x / 2)"
  by (simp add: normCDF_def ncdf_q_def Let_def)

lemma exp_neg_bounds: "0 \<le> y \<Longrightarrow> 1 - y \<le> exp (- y) \<and> exp (- y) \<le> (1::real)"
  using exp_ge_add_one_self [of "- y"] by simp

lemma normCDF_bounds:
  assumes "0 < x" "0 \<le> ncdf_q x"
  shows "1 - ncdf_q x \<le> normCDF x" "normCDF x \<le> 1 - ncdf_q x * (1 - x * x / 2)"
proof -
  have e: "1 - x * x / 2 \<le> exp (- x * x / 2)" "exp (- x * x / 2) \<le> 1"
    using exp_neg_bounds [of "x * x / 2"] by simp_all
  have "ncdf_q x * exp (- x * x / 2) \<le> ncdf_q x * 1"
    using assms(2) e(2) by (rule mult_left_mono [rotated])
  then show "1 - ncdf_q x \<le> normCDF x"
    using assms(1) by (simp add: normCDF_pos)
  have "ncdf_q x * (1 - x * x / 2) \<le> ncdf_q x * exp (- x * x / 2)"
    using assms(2) e(1) by (rule mult_left_mono [rotated])
  then show "normCDF x \<le> 1 - ncdf_q x * (1 - x * x / 2)"
    using assms(1) by (simp add: normCDF_pos)
qed

lemma q1_bounds: "0.4998604 < ncdf_q (7 / 20000)" "ncdf_q (7 / 20000) < 0.4998605"
  by (simp_all add: ncdf_q_def Let_def)

lemma q2_bounds: "0.4999401 < ncdf_q (3 / 20000)" "ncdf_q (3 / 20000) < 0.4999402"
  by (simp_all add: ncdf_q_def Let_def)

lemma N1_bounds: "0.5001395 \<le> normCDF (7 / 20000)" "normCDF (7 / 20000) \<le> 0.5001397"
proof -
  have q: "0 \<le> ncdf_q (7 / 20000)"
    using q1_bounds(1) by simp
  have "1 - ncdf_q (7 / 20000) \<le> normCDF (7 / 20000)"
    by (rule normCDF_bounds(1) [OF _ q]) simp
  then show "0.5001395 \<le> normCDF (7 / 20000)"
    using q1_bounds(2) by simp
  have "normCDF (7 / 20000) \<le> 1 - ncdf_q (7 / 20000) * (1 - (7 / 20000) * (7 / 20000) / 2)"
    by (rule normCDF_bounds(2) [OF _ q]) simp
  then show "normCDF (7 / 20000) \<le> 0.5001397"
    using q1_bounds(1) by simp
qed

lemma N2_bounds: "0.5000598 \<le> normCDF (3 / 20000)" "normCDF (3 / 20000) \<le> 0.5000600"
proof -
  have q: "0 \<le> ncdf_q (3 / 20000)"
    using q2_bounds(1) by simp
  have "1 - ncdf_q (3 / 20000) \<le> normCDF (3 / 20000)"
    by (rule normCDF_bounds(1) [OF _ q]) simp
  then show "0.5000598 \<le> normCDF (3 / 20000)"
    using q2_bounds(2) by simp
  have "normCDF (3 / 20000) \<le> 1 - ncdf_q (3 / 20000) * (1 - (3 / 20000) * (3 / 20000) / 2)"
    by (rule normCDF_bounds(2) [OF _ q]) simp
  then show "normCDF (3 / 20000) \<le> 0.5000600"
    using q2_bounds(1) by simp
qed

lemma atm_price_bounds:
  "7 / 1000 < 100 * normCDF (7 / 20000) - 100 * exp (- (1 / 20000000)) * normCDF (3 / 20000)"
  "100 * normCDF (7 / 20000) - 100 * exp (- (1 / 20000000)) * normCDF (3 / 20000) < 9 / 1000"
proof -
  let ?E = "exp (- (1 / 20000000 :: real))"
  let ?N1 = "normCDF (7 / 20000)"
  let ?N2 = "normCDF (3 / 20000)"
  have E: "1 - 1 / 20000000 \<le> ?E" "?E \<le> 1"
    using exp_neg_bounds [of "1 / 20000000"] by simp_all
  have "?E * ?N2 \<le> 1 * 0.5000600"
    using E(2) N2_bounds by (intro mult_mono) simp_all
  then show "7 / 1000 < 100 * ?N1 - 100 * ?E * ?N2"
    using N1_bounds(1) by simp
  have "(1 - 1 / 20000000) * 0.5000598 \<le> ?E * ?N2"
    using E(1) N2_bounds(1) by (intro mult_mono) simp_all
  then show "100 * ?N1 - 100 * ?E * ?N2 < 9 / 1000"
    using N1_bounds(2) by simp
qed

lemma eventually_clamped: "eventually (\<lambda>t. t \<le> 1 / 10 ^ 6) (at_right (0::real))"
  unfolding eventually_at_right_field
  by (rule exI [of _ "1 / 10 ^ 6"]) simp

lemma bsCall_atm_tendsto: "(bsCall 100 \<longlongrightarrow> bsCall 100 0) (at_right 0)"
proof -
  have "eventually (\<lambda>t. bsCall 100 0 = bsCall 100 t) (at_right 0)"
    using eventually_clamped by eventually_elim (simp add: bsCall_atm)
  then show ?thesis
    using tendsto_const [of "bsCall 100 0" "at_right 0"] by (rule tendsto_cong [THEN iffD1])
qed

lemma delta_atm_tendsto: "(delta 100 \<longlongrightarrow> delta 100 0) (at_right 0)"
proof -
  have "eventually (\<lambda>t. delta 100 0 = delta 100 t) (at_right 0)"
    using eventually_clamped by eventually_elim (simp add: delta_atm)
  then show ?thesis
    using tendsto_const [of "delta 100 0" "at_right 0"] by (rule tendsto_cong [THEN iffD1])
qed

text \<open>
  C5, as stated, fails in its second part: as \<open>t\<close> approaches \<open>0\<close> the at-the-money call
  price does not approach \<open>max (S - K) 0 = 0\<close>. Below the clamp it is a constant above
  \<open>0.007\<close>.
\<close>

theorem atm_price_limit_not_payoff:
  "\<not> (bsCall 100 \<longlongrightarrow> max (100 - 100) 0) (at_right 0)"
proof
  assume "(bsCall 100 \<longlongrightarrow> max (100 - 100) 0) (at_right 0)"
  with trivial_limit_at_right_real bsCall_atm_tendsto
  have "bsCall 100 0 = max (100 - 100) 0"
    by (rule tendsto_unique)
  moreover have "7 / 1000 < bsCall 100 0"
    using atm_price_bounds(1) by (simp add: bsCall_atm)
  ultimately show False
    by simp
qed

text \<open>
  C5, amended. With the time to maturity clamped below by \<open>10\<^sup>-\<^sup>6\<close>, at stock price =
  strike = 100 the delta and the call price are constant for every \<open>t \<le> 10\<^sup>-\<^sup>6\<close>, and
  these constants are their limits as \<open>t\<close> approaches \<open>0\<close>: the delta is within \<open>10\<^sup>-\<^sup>3\<close>
  of \<open>0.5\<close>; the call price is within \<open>10\<^sup>-\<^sup>2\<close> of \<open>max (S - K) 0\<close>, which it does not
  reach (it stays above \<open>0.007\<close>). No division by zero occurs at any \<open>t\<close>: the divisor
  \<open>sigma * sqrt (max t 10\<^sup>-\<^sup>6)\<close> is positive.
\<close>

theorem atm_limit:
  "(\<forall>t \<le> 1 / 10 ^ 6.
       delta 100 t = delta 100 0 \<and> \<bar>delta 100 t - 0.5\<bar> < 1 / 10 ^ 3
     \<and> bsCall 100 t = bsCall 100 0 \<and> \<bar>bsCall 100 t - max (100 - 100) 0\<bar> < 1 / 10 ^ 2
     \<and> 7 / 1000 < bsCall 100 t)
   \<and> (delta 100 \<longlongrightarrow> delta 100 0) (at_right 0)
   \<and> (bsCall 100 \<longlongrightarrow> bsCall 100 0) (at_right 0)
   \<and> (\<forall>t. 0 < bs_sigma * sqrt (max t (1 / 10 ^ 6)))
   \<and> bs_K \<noteq> 0"
proof (intro conjI allI impI)
  fix t :: real
  assume t: "t \<le> 1 / 10 ^ 6"
  show "delta 100 t = delta 100 0"
    using t by (simp add: delta_atm)
  show "\<bar>delta 100 t - 0.5\<bar> < 1 / 10 ^ 3"
    using N1_bounds t by (simp add: delta_atm abs_less_iff)
  show "bsCall 100 t = bsCall 100 0"
    using t by (simp add: bsCall_atm)
  show "\<bar>bsCall 100 t - max (100 - 100) 0\<bar> < 1 / 10 ^ 2"
    using atm_price_bounds t by (simp add: bsCall_atm abs_less_iff)
  show "7 / 1000 < bsCall 100 t"
    using atm_price_bounds t by (simp add: bsCall_atm)
next
  show "(delta 100 \<longlongrightarrow> delta 100 0) (at_right 0)"
    by (rule delta_atm_tendsto)
  show "(bsCall 100 \<longlongrightarrow> bsCall 100 0) (at_right 0)"
    by (rule bsCall_atm_tendsto)
  show "bs_K \<noteq> 0"
    by (simp add: bs_K_def)
next
  fix t :: real
  show "0 < bs_sigma * sqrt (max t (1 / 10 ^ 6))"
    by (simp add: bs_sigma_def max_def)
qed

theorem atm_limit_witness:
  "(0::real) \<le> 1 / 10 ^ 6 \<and> \<bar>delta 100 0 - 0.5\<bar> < 1 / 10 ^ 3
   \<and> \<bar>bsCall 100 0 - max (100 - 100) 0\<bar> < 1 / 10 ^ 2 \<and> 7 / 1000 < bsCall 100 0"
proof -
  have z: "(0::real) \<le> 1 / 10 ^ 6"
    by simp
  from atm_limit have "\<forall>t \<le> 1 / 10 ^ 6.
       delta 100 t = delta 100 0 \<and> \<bar>delta 100 t - 0.5\<bar> < 1 / 10 ^ 3
     \<and> bsCall 100 t = bsCall 100 0 \<and> \<bar>bsCall 100 t - max (100 - 100) 0\<bar> < 1 / 10 ^ 2
     \<and> 7 / 1000 < bsCall 100 t"
    by (rule conjunct1)
  then have "\<bar>delta 100 0 - 0.5\<bar> < 1 / 10 ^ 3
     \<and> \<bar>bsCall 100 0 - max (100 - 100) 0\<bar> < 1 / 10 ^ 2 \<and> 7 / 1000 < bsCall 100 0"
    using z by blast
  with z show ?thesis
    by (intro conjI) (elim conjE, assumption)+
qed


subsection \<open>The loader fetches at most once\<close>

lemma loader_inv_init: "loader_inv (init w)"
  by (simp add: loader_inv_def init_def split: option.split)

lemma loader_inv_fetches: "loader_inv s \<Longrightarrow> fetches s \<le> 1"
  by (auto simp: loader_inv_def split: option.splits)

lemma loadPlotly_inv: "loader_inv s \<Longrightarrow> loadPlotly s = (p, s1) \<Longrightarrow> loader_inv s1"
  by (auto simp: loader_inv_def loadPlotly_def new_promise_def split: option.splits)

lemma script_onload_inv: "loader_inv s \<Longrightarrow> loader_inv (script_onload e s)"
  by (auto simp: loader_inv_def script_onload_def settle_def split: option.splits list.splits)

lemma script_onerror_inv: "loader_inv s \<Longrightarrow> loader_inv (script_onerror s)"
  by (auto simp: loader_inv_def script_onerror_def settle_def split: option.splits list.splits)

lemma loader_run_Call:
  "loader_run (Call # evs) s = (ps, s') \<longleftrightarrow>
     (\<exists>p s1 qs. loadPlotly s = (p, s1) \<and> loader_run evs s1 = (qs, s') \<and> ps = p # qs)"
  by (auto split: prod.splits)

lemma loader_run_inv:
  "loader_inv s \<Longrightarrow> loader_run evs s = (ps, s') \<Longrightarrow> loader_inv s'"
proof (induction evs arbitrary: s ps)
  case Nil
  then show ?case by simp
next
  case (Cons ev evs)
  show ?case
  proof (cases ev)
    case Call
    with Cons.prems(2) obtain p s1 qs where
      "loadPlotly s = (p, s1)" "loader_run evs s1 = (qs, s')"
      by (auto simp: loader_run_Call simp del: loader_run.simps)
    with Cons.IH [of s1 qs] Cons.prems(1) show ?thesis
      by (simp add: loadPlotly_inv)
  next
    case (Loaded e)
    with Cons.IH [of "script_onload e s" ps] Cons.prems show ?thesis
      by (simp add: script_onload_inv)
  next
    case Failed
    with Cons.IH [of "script_onerror s" ps] Cons.prems show ?thesis
      by (simp add: script_onerror_inv)
  qed
qed

text \<open>Once memoized, the promise stays memoized, and every call returns it.\<close>

lemma settle_plotlyPromise [simp]: "plotlyPromise (settle p v s) = plotlyPromise s"
  by (simp add: settle_def)

lemma script_plotlyPromise [simp]:
  "plotlyPromise (script_onload e s) = plotlyPromise s"
  "plotlyPromise (script_onerror s) = plotlyPromise s"
  by (simp_all add: script_onload_def script_onerror_def split: list.splits)

lemma loadPlotly_memoized:
  "plotlyPromise s = Some p \<Longrightarrow> loadPlotly s = (p, s)"
  by (simp add: loadPlotly_def)

lemma loader_run_memoized:
  "plotlyPromise s = Some p \<Longrightarrow> loader_run evs s = (ps, s') \<Longrightarrow>
     plotlyPromise s' = Some p \<and> (\<forall>q \<in> set ps. q = p)"
proof (induction evs arbitrary: s ps)
  case Nil
  then show ?case by simp
next
  case (Cons ev evs)
  show ?case
  proof (cases ev)
    case Call
    with Cons.prems obtain qs where "loader_run evs s = (qs, s')" "ps = p # qs"
      by (auto simp: loader_run_Call loadPlotly_memoized simp del: loader_run.simps)
    with Cons.IH [of s qs] Cons.prems(1) show ?thesis
      by simp
  next
    case (Loaded e)
    with Cons.IH [of "script_onload e s" ps] Cons.prems show ?thesis
      by simp
  next
    case Failed
    with Cons.IH [of "script_onerror s" ps] Cons.prems show ?thesis
      by simp
  qed
qed

lemma loadPlotly_memoizing:
  "loader_inv s \<Longrightarrow> memoizing s \<Longrightarrow> loadPlotly s = (p, s1) \<Longrightarrow> plotlyPromise s1 = Some p"
  by (auto simp: loader_inv_def memoizing_def loadPlotly_def new_promise_def
      split: option.splits)

lemma script_memoizing:
  "loader_inv s \<Longrightarrow> memoizing s \<Longrightarrow> memoizing (script_onload e s)"
  "loader_inv s \<Longrightarrow> memoizing s \<Longrightarrow> memoizing (script_onerror s)"
  by (auto simp: memoizing_def loader_inv_def script_onload_def script_onerror_def settle_def
      split: option.splits list.splits)

lemma loader_run_memoizing:
  "loader_inv s \<Longrightarrow> memoizing s \<Longrightarrow> loader_run evs s = (ps, s') \<Longrightarrow>
     \<forall>p \<in> set ps. plotlyPromise s' = Some p"
proof (induction evs arbitrary: s ps)
  case Nil
  then show ?case by simp
next
  case (Cons ev evs)
  show ?case
  proof (cases ev)
    case Call
    with Cons.prems(3) obtain p s1 qs where
      l: "loadPlotly s = (p, s1)" and r: "loader_run evs s1 = (qs, s')" and ps: "ps = p # qs"
      by (auto simp: loader_run_Call simp del: loader_run.simps)
    have "plotlyPromise s1 = Some p"
      using Cons.prems(1,2) l by (rule loadPlotly_memoizing)
    from loader_run_memoized [OF this r] ps show ?thesis
      by simp
  next
    case (Loaded e)
    with Cons.IH [of "script_onload e s" ps] Cons.prems show ?thesis
      by (simp add: script_onload_inv script_memoizing)
  next
    case Failed
    with Cons.IH [of "script_onerror s" ps] Cons.prems show ?thesis
      by (simp add: script_onerror_inv script_memoizing)
  qed
qed

text \<open>
  When the page had the engine already, nothing is fetched or memoized: every call
  returns a new promise, fulfilled with that engine.
\<close>

lemma upt_from_here: "[n ..< n + Suc k] = n # [Suc n ..< Suc n + k]"
  by (subst upt_rec) simp

lemma loader_run_preloaded:
  "loader_inv s \<Longrightarrow> plotlyPromise s = None \<Longrightarrow> windowPlotly s = Some e \<Longrightarrow>
   loader_run evs s = (ps, s') \<Longrightarrow>
     plotlyPromise s' = None \<and> windowPlotly s' = Some e \<and> fetches s' = 0
     \<and> length (promises s') = length (promises s) + length ps
     \<and> ps = [length (promises s) ..< length (promises s) + length ps]"
proof (induction evs arbitrary: s ps)
  case Nil
  then show ?case by (simp add: loader_inv_def)
next
  case (Cons ev evs)
  have idle: "inflight s = []"
    using Cons.prems(1,2) by (simp add: loader_inv_def)
  show ?case
  proof (cases ev)
    case Call
    let ?n = "length (promises s)"
    let ?s1 = "s\<lparr>promises := promises s @ [Fulfilled e]\<rparr>"
    have l: "loadPlotly s = (?n, ?s1)"
      using Cons.prems(2,3) by (simp add: loadPlotly_def new_promise_def)
    with Call Cons.prems(4) obtain qs where
      r: "loader_run evs ?s1 = (qs, s')" and ps: "ps = ?n # qs"
      by (auto simp: loader_run_Call simp del: loader_run.simps)
    have i: "loader_inv ?s1"
      using Cons.prems(1) l by (rule loadPlotly_inv)
    have a: "plotlyPromise ?s1 = None" and b: "windowPlotly ?s1 = Some e"
      using Cons.prems(2,3) by simp_all
    note ih = Cons.IH [OF i a b r]
    have len: "length (promises ?s1) = Suc ?n"
      by simp
    from ih have qs: "qs = [Suc ?n ..< Suc ?n + length qs]"
      unfolding len by blast
    have "[?n ..< ?n + length ps] = ?n # [Suc ?n ..< Suc ?n + length qs]"
      using upt_from_here [of ?n "length qs"] unfolding ps by simp
    with qs have "ps = [?n ..< ?n + length ps]"
      using ps by simp
    moreover from ih have "plotlyPromise s' = None" "windowPlotly s' = Some e" "fetches s' = 0"
      "length (promises s') = ?n + length ps"
      unfolding len ps by simp_all
    ultimately show ?thesis
      by blast
  next
    case (Loaded e')
    with Cons.IH [of s ps] Cons.prems idle show ?thesis
      by (simp add: script_onload_def)
  next
    case Failed
    with Cons.IH [of s ps] Cons.prems idle show ?thesis
      by (simp add: script_onerror_def)
  qed
qed

lemma preloaded_state_of:
  assumes "loader_inv s" "plotlyPromise s = None" "windowPlotly s = Some e"
    and "p < length (promises s)"
  shows "state_of s p = Fulfilled e"
proof -
  have "set (promises s) \<subseteq> {Fulfilled e}"
    using assms(1-3) by (simp add: loader_inv_def)
  moreover have "promises s ! p \<in> set (promises s)"
    using assms(4) by (rule nth_mem)
  ultimately have "promises s ! p = Fulfilled e"
    by blast
  then show ?thesis
    using assms(4) by (simp add: state_of_def)
qed

lemma loader_inv_same_handle:
  assumes "loader_inv s" "state_of s p = Fulfilled a" "state_of s q = Fulfilled b"
  shows "a = b"
proof (cases "plotlyPromise s")
  case None
  from assms(2,3) have v: "p < length (promises s)" "q < length (promises s)"
    by (auto simp: state_of_def split: if_splits)
  from None assms(1) v(1) obtain e where e: "windowPlotly s = Some e"
    by (cases "windowPlotly s") (auto simp: loader_inv_def)
  from preloaded_state_of [OF assms(1) None e] v assms(2,3) show ?thesis
    by simp
next
  case (Some m)
  with assms show ?thesis
    by (auto simp: loader_inv_def state_of_def split: option.splits if_splits)
qed

text \<open>
  C6, as stated, fails: on a page that already holds the engine nothing is memoized, and
  two calls return two different promises.
\<close>

theorem preloaded_calls_differ:
  "fst (loader_run [Call, Call] (init (Some 7))) = [0, 1]
   \<and> plotlyPromise (snd (loader_run [Call, Call] (init (Some 7)))) = None
   \<and> fetches (snd (loader_run [Call, Call] (init (Some 7)))) = 0"
  by (simp add: init_def loadPlotly_def new_promise_def)

text \<open>
  C6, amended. For every sequence of calls of the loader, interleaved in any way with
  the outcome of the fetch, at most one fetch is ever performed. On a page that did
  not hold the engine, every call, also every call before the load resolves, returns
  the same memoized promise. On a page that held the engine already, nothing is fetched
  or memoized, and every call returns a new promise fulfilled with that engine. In
  both cases all callers whose promise is fulfilled observe the same engine handle.
\<close>

theorem loader_fetches_once:
  assumes "loader_run evs (init w) = (ps, s)"
  shows "fetches s \<le> 1
       \<and> (w = None \<longrightarrow> (\<forall>p \<in> set ps. plotlyPromise s = Some p))
       \<and> (\<forall>e. w = Some e \<longrightarrow>
              fetches s = 0 \<and> plotlyPromise s = None \<and> distinct ps
              \<and> (\<forall>p \<in> set ps. state_of s p = Fulfilled e))
       \<and> (\<forall>p \<in> set ps. \<forall>q \<in> set ps. \<forall>a b.
              state_of s p = Fulfilled a \<and> state_of s q = Fulfilled b \<longrightarrow> a = b)"
proof (intro conjI allI impI ballI)
  have inv: "loader_inv s"
    using loader_inv_init assms by (rule loader_run_inv)
  show "fetches s \<le> 1"
    using inv by (rule loader_inv_fetches)
  show "a = b" if "state_of s p = Fulfilled a \<and> state_of s q = Fulfilled b" for p q a b
    using inv that by (blast intro: loader_inv_same_handle)
  show "plotlyPromise s = Some p" if "w = None" "p \<in> set ps" for p
  proof -
    have "memoizing (init w)"
      using that(1) by (simp add: memoizing_def init_def)
    with loader_inv_init have "\<forall>p \<in> set ps. plotlyPromise s = Some p"
      using assms by (rule loader_run_memoizing)
    with that(2) show ?thesis
      by blast
  qed
  fix e
  assume w: "w = Some e"
  have a: "plotlyPromise (init w) = None" and b: "windowPlotly (init w) = Some e"
    and c: "length (promises (init w)) = 0"
    using w by (simp_all add: init_def)
  note pre = loader_run_preloaded [OF loader_inv_init a b assms, unfolded c]
  from pre show "fetches s = 0" and n: "plotlyPromise s = None"
    by simp_all
  from pre have ps: "ps = [0 ..< length ps]" and len: "length (promises s) = length ps"
    by simp_all
  show "distinct ps"
    by (subst ps) simp
  show "state_of s p = Fulfilled e" if "p \<in> set ps" for p
  proof -
    from that have "p \<in> set [0 ..< length ps]"
      using ps by simp
    then have "p < length (promises s)"
      using len by simp
    with inv n pre show ?thesis
      by (blast intro: preloaded_state_of)
  qed
qed

theorem loader_fetches_once_witness:
  "fst (loader_run [Call, Call, Loaded 5, Call] (init None)) = [0, 0, 0]
   \<and> fetches (snd (loader_run [Call, Call, Loaded 5, Call] (init None))) \<le> 1
   \<and> plotlyPromise (snd (loader_run [Call, Call, Loaded 5, Call] (init None))) = Some 0
   \<and> state_of (snd (loader_run [Call, Call, Loaded 5, Call] (init None))) 0 = Fulfilled 5"
proof -
  let ?r = "loader_run [Call, Call, Loaded 5, Call] (init None)"
  have ps: "fst ?r = [0, 0, 0]"
    by (simp add: init_def loadPlotly_def new_promise_def script_onload_def settle_def)
  have st: "state_of (snd ?r) 0 = Fulfilled 5"
    by (simp add: init_def loadPlotly_def new_promise_def script_onload_def settle_def
        state_of_def)
  have "?r = (fst ?r, snd ?r)"
    by simp
  from loader_fetches_once [OF this]
  have "fetches (snd ?r) \<le> 1" and "\<forall>p \<in> set (fst ?r). plotlyPromise (snd ?r) = Some p"
    by blast+
  with ps st show ?thesis
    by simp
qed


subsection \<open>The engine-load state machine only moves forward\<close>

lemma loader_inv_cong: "loader_of s' = loader_of s \<Longrightarrow> loader_inv s' = loader_inv s"
  by (auto simp: loader_of_def loader_inv_def split: option.splits)

lemma state_of_cong: "loader_of s' = loader_of s \<Longrightarrow> state_of s' p = state_of s p"
  by (auto simp: loader_of_def state_of_def)

lemma phase_cong: "loader_of s' = loader_of s \<Longrightarrow> phase s' = phase s"
  using state_of_cong [of s' s] by (auto simp: loader_of_def phase_def split: option.splits)

lemma loader_of_fields:
  "loader_of s' = loader_of s \<Longrightarrow> promises s' = promises s \<and> fetches s' = fetches s"
  by (simp add: loader_of_def)

lemma loader_of_update [simp]:
  "loader_of (s\<lparr>reactions := rs\<rparr>) = loader_of s"
  "loader_of (s\<lparr>console := l\<rparr>) = loader_of s"
  "loader_of (s\<lparr>divRef := d\<rparr>) = loader_of s"
  "loader_of (s\<lparr>ready := b\<rparr>) = loader_of s"
  "loader_of (s\<lparr>drawn := g\<rparr>) = loader_of s"
  by (simp_all add: loader_of_def)

lemma loadPlotly_frame:
  "loadPlotly s = (p, s1) \<Longrightarrow>
     reactions s1 = reactions s \<and> console s1 = console s \<and> divRef s1 = divRef s
     \<and> ready s1 = ready s \<and> drawn s1 = drawn s"
  by (auto simp: loadPlotly_def new_promise_def split: option.splits)

lemma loadPlotly_valid:
  "loader_inv s \<Longrightarrow> loadPlotly s = (p, s1) \<Longrightarrow>
     p < length (promises s1) \<and> length (promises s) \<le> length (promises s1)"
  by (auto simp: loader_inv_def loadPlotly_def new_promise_def split: option.splits)

lemma loadPlotly_phase:
  "loader_inv s \<Longrightarrow> loadPlotly s = (p, s1) \<Longrightarrow>
     phase s1 = (if phase s = Unloaded then Loading else phase s)
     \<and> fetches s1 = (if phase s = Unloaded then 1 else fetches s)"
  by (auto simp: loader_inv_def loadPlotly_def new_promise_def phase_def state_of_def
      split: option.splits)

lemma script_onload_frame:
  "reactions (script_onload e s) = reactions s \<and> console (script_onload e s) = console s
   \<and> ready (script_onload e s) = ready s \<and> fetches (script_onload e s) = fetches s
   \<and> length (promises (script_onload e s)) = length (promises s)"
  by (simp add: script_onload_def settle_def split: list.splits)

lemma script_onerror_frame:
  "reactions (script_onerror s) = reactions s \<and> console (script_onerror s) = console s
   \<and> ready (script_onerror s) = ready s \<and> fetches (script_onerror s) = fetches s
   \<and> length (promises (script_onerror s)) = length (promises s)"
  by (simp add: script_onerror_def settle_def split: list.splits)

lemma script_onload_phase:
  "loader_inv s \<Longrightarrow> phase (script_onload e s) = (if phase s = Loading then Ready else phase s)"
  by (auto simp: loader_inv_def script_onload_def settle_def phase_def state_of_def
      split: option.splits list.splits)

lemma script_onerror_phase:
  "loader_inv s \<Longrightarrow>
     phase (script_onerror s) = (if phase s = Loading then LoadFailed else phase s)"
  by (auto simp: loader_inv_def script_onerror_def settle_def phase_def state_of_def
      split: option.splits list.splits)

lemma fulfilled_phase: "loader_inv s \<Longrightarrow> state_of s p = Fulfilled e \<Longrightarrow> phase s = Ready"
  by (auto simp: loader_inv_def phase_def state_of_def split: option.splits if_splits)

text \<open>Reactions never touch the loader's part of the state.\<close>

lemma react_loader: "loader_of (react r s) = loader_of s"
  by (simp add: react_def on_fulfilled_def on_rejected_def newPlot_def
      split: pstate.splits option.splits)

lemma fold_react_loader: "loader_of (fold react rs s) = loader_of s"
  by (induction rs arbitrary: s) (simp_all add: react_loader)

lemma tick_loader: "loader_of (tick s) = loader_of s"
  by (simp add: tick_def fold_react_loader)

text \<open>The part of the page invariant that every single reaction keeps.\<close>

lemma react_core:
  assumes "loader_inv s" "rpromise r < length (promises s)"
    and "list_all (\<lambda>r. rpromise r < length (promises s)) (reactions s)"
    and "phase s \<noteq> Ready \<longrightarrow> ready s = (\<lambda>c. False)"
  shows "list_all (\<lambda>q. rpromise q < length (promises (react r s))) (reactions (react r s))
       \<and> (phase (react r s) \<noteq> Ready \<longrightarrow> ready (react r s) = (\<lambda>c. False))"
proof -
  have l: "loader_of (react r s) = loader_of s"
    by (rule react_loader)
  have p: "promises (react r s) = promises s" and ph: "phase (react r s) = phase s"
    using loader_of_fields [OF l] phase_cong [OF l] by simp_all
  show ?thesis
  proof (cases "state_of s (rpromise r)")
    case Pending
    then have "reactions (react r s) = reactions s @ [r]" "ready (react r s) = ready s"
      by (simp_all add: react_def)
    with assms show ?thesis
      by (simp add: p ph)
  next
    case (Fulfilled e)
    with assms(1) have "phase s = Ready"
      by (rule fulfilled_phase)
    moreover from Fulfilled have "reactions (react r s) = reactions s"
      by (simp add: react_def on_fulfilled_def on_rejected_def newPlot_def
          split: option.splits)
    ultimately show ?thesis
      using assms(3) by (simp add: p ph)
  next
    case Rejected
    then have "reactions (react r s) = reactions s" "ready (react r s) = ready s"
      by (simp_all add: react_def on_rejected_def)
    with assms show ?thesis
      by (simp add: p ph)
  qed
qed

lemma fold_react_core:
  assumes "loader_inv s" "list_all (\<lambda>r. rpromise r < length (promises s)) rs"
    and "list_all (\<lambda>r. rpromise r < length (promises s)) (reactions s)"
    and "phase s \<noteq> Ready \<longrightarrow> ready s = (\<lambda>c. False)"
  shows "list_all (\<lambda>q. rpromise q < length (promises s)) (reactions (fold react rs s))
       \<and> (phase s \<noteq> Ready \<longrightarrow> ready (fold react rs s) = (\<lambda>c. False))"
  using assms
proof (induction rs arbitrary: s)
  case Nil
  then show ?case by simp
next
  case (Cons r rs)
  have l: "loader_of (react r s) = loader_of s"
    by (rule react_loader)
  have p: "promises (react r s) = promises s" and ph: "phase (react r s) = phase s"
    using loader_of_fields [OF l] phase_cong [OF l] by simp_all
  have i: "loader_inv (react r s)"
    using loader_inv_cong [OF l] Cons.prems(1) by simp
  from react_core [of s r] Cons.prems
  have c: "list_all (\<lambda>q. rpromise q < length (promises (react r s))) (reactions (react r s))"
    "phase (react r s) \<noteq> Ready \<longrightarrow> ready (react r s) = (\<lambda>c. False)"
    by simp_all
  from Cons.prems(2) have rs: "list_all (\<lambda>q. rpromise q < length (promises (react r s))) rs"
    by (simp add: p)
  from Cons.IH [OF i rs c] show ?case
    by (simp add: p ph)
qed

text \<open>While the load is pending a checkpoint leaves every reaction registered.\<close>

lemma fold_react_pending:
  assumes "promises s = [Pending]" "list_all (\<lambda>r. rpromise r < length (promises s)) rs"
  shows "fold react rs s = s\<lparr>reactions := reactions s @ rs\<rparr>"
  using assms
proof (induction rs arbitrary: s)
  case Nil
  then show ?case by simp
next
  case (Cons r rs)
  from Cons.prems have "react r s = s\<lparr>reactions := reactions s @ [r]\<rparr>"
    by (simp add: react_def state_of_def)
  with Cons.IH [of "s\<lparr>reactions := reactions s @ [r]\<rparr>"] Cons.prems show ?case
    by simp
qed

text \<open>Once the load has failed a checkpoint logs the failure once for every reaction.\<close>

lemma fold_react_rejected:
  assumes "promises s = [Rejected]" "list_all (\<lambda>r. rpromise r < length (promises s)) rs"
  shows "fold react rs s =
           s\<lparr>console := console s @ replicate (length rs) ''Plotly load failed:''\<rparr>"
  using assms
proof (induction rs arbitrary: s)
  case Nil
  then show ?case by simp
next
  case (Cons r rs)
  let ?s1 = "s\<lparr>console := console s @ [''Plotly load failed:'']\<rparr>"
  from Cons.prems have "react r s = ?s1"
    by (simp add: react_def state_of_def on_rejected_def)
  with Cons.IH [of ?s1] Cons.prems show ?case
    by (simp add: replicate_app_Cons_same)
qed

lemma loading_promises: "loader_inv s \<Longrightarrow> phase s = Loading \<Longrightarrow> promises s = [Pending]"
  by (auto simp: loader_inv_def phase_def state_of_def split: option.splits if_splits)

lemma failed_promises: "loader_inv s \<Longrightarrow> phase s = LoadFailed \<Longrightarrow> promises s = [Rejected]"
  by (auto simp: loader_inv_def phase_def state_of_def split: option.splits if_splits)

lemma tick_loading:
  assumes "page_inv s" "phase s = Loading"
  shows "tick s = s"
proof -
  have p: "promises (s\<lparr>reactions := []\<rparr>) = [Pending]"
    using assms by (simp add: page_inv_def loading_promises)
  have v: "list_all (\<lambda>r. rpromise r < length (promises (s\<lparr>reactions := []\<rparr>))) (reactions s)"
    using assms(1) by (simp add: page_inv_def)
  show ?thesis
    unfolding tick_def fold_react_pending [OF p v] by simp
qed

lemma tick_failed:
  assumes "page_inv s" "phase s = LoadFailed"
  shows "tick s = s\<lparr>reactions := [],
               console := console s @ replicate (length (reactions s)) ''Plotly load failed:''\<rparr>"
proof -
  have p: "promises (s\<lparr>reactions := []\<rparr>) = [Rejected]"
    using assms by (simp add: page_inv_def failed_promises)
  have v: "list_all (\<lambda>r. rpromise r < length (promises (s\<lparr>reactions := []\<rparr>))) (reactions s)"
    using assms(1) by (simp add: page_inv_def)
  show ?thesis
    unfolding tick_def fold_react_rejected [OF p v] by simp
qed

lemma tick_inv: "page_inv s \<Longrightarrow> page_inv (tick s)"
proof -
  assume inv: "page_inv s"
  let ?s0 = "s\<lparr>reactions := []\<rparr>"
  have l: "loader_of (tick s) = loader_of s"
    by (rule tick_loader)
  have ph: "phase (tick s) = phase s" and p: "promises (tick s) = promises s"
    using phase_cong [OF l] loader_of_fields [OF l] by simp_all
  have l0: "loader_of ?s0 = loader_of s"
    by (simp add: loader_of_def)
  have "loader_inv ?s0" "phase ?s0 = phase s"
    using loader_inv_cong [OF l0] phase_cong [OF l0] inv by (simp_all add: page_inv_def)
  with fold_react_core [of ?s0 "reactions s"] inv
  have core: "list_all (\<lambda>q. rpromise q < length (promises s)) (reactions (tick s))"
    "phase s \<noteq> Ready \<longrightarrow> ready (tick s) = (\<lambda>c. False)"
    by (simp_all add: page_inv_def tick_def)
  have a: "phase s = Loading \<longrightarrow> reactions (tick s) \<noteq> []"
    using inv by (auto simp: tick_loading page_inv_def)
  have b: "phase s = LoadFailed \<longrightarrow>
      reactions (tick s) \<noteq> [] \<or> ''Plotly load failed:'' \<in> set (console (tick s))"
    using inv by (auto simp: tick_failed page_inv_def)
  show ?thesis
    using inv core a b loader_inv_cong [OF l] by (simp add: page_inv_def ph p)
qed


text \<open>Every event keeps the page invariant and moves the machine forward, if at all.\<close>

lemma page_inv_frame:
  assumes "loader_of s' = loader_of s" "reactions s' = reactions s" "console s' = console s"
    and "ready s' = ready s"
  shows "page_inv s' = page_inv s"
  using loader_inv_cong [OF assms(1)] phase_cong [OF assms(1)] loader_of_fields [OF assms(1)]
    assms(2-4)
  by (simp add: page_inv_def)

lemma effect_step:
  assumes "page_inv s" "effect c def s = Inr s'"
  shows "page_inv s'"
    and "phase s' = (if phase s = Unloaded then Loading else phase s)"
    and "fetches s' = (if phase s = Unloaded then 1 else fetches s)"
proof -
  from assms(2) obtain data layout p s1 where
    l: "loadPlotly s = (p, s1)" and
    s': "s' = s1\<lparr>reactions := reactions s1 @
           [\<lparr>rpromise = p, rcomp = c, rdata = data, rlayout = layout\<rparr>]\<rparr>"
    by (auto simp: effect_def split: sum.splits prod.splits)
  have i: "loader_inv s"
    using assms(1) by (simp add: page_inv_def)
  have i1: "loader_inv s1"
    using i l by (rule loadPlotly_inv)
  note f = loadPlotly_frame [OF l] and v = loadPlotly_valid [OF i l]
    and ph = loadPlotly_phase [OF i l]
  have l': "loader_of s' = loader_of s1"
    by (simp add: s')
  have ph': "phase s' = phase s1" and p': "promises s' = promises s1"
    and f': "fetches s' = fetches s1"
    using phase_cong [OF l'] loader_of_fields [OF l'] by simp_all
  show "phase s' = (if phase s = Unloaded then Loading else phase s)"
    using ph ph' by simp
  show "fetches s' = (if phase s = Unloaded then 1 else fetches s)"
    using ph f' by simp
  have "list_all (\<lambda>r. rpromise r < length (promises s)) (reactions s)"
    using assms(1) by (simp add: page_inv_def)
  then have "list_all (\<lambda>r. rpromise r < length (promises s1)) (reactions s)"
    using v by (auto simp: list_all_iff)
  then have a: "list_all (\<lambda>r. rpromise r < length (promises s')) (reactions s')"
    using v f by (simp add: s')
  have b: "phase s' \<noteq> Ready \<longrightarrow> ready s' = (\<lambda>c. False)"
    using assms(1) ph ph' f by (auto simp: page_inv_def s' split: if_splits)
  have c: "reactions s' \<noteq> []"
    by (simp add: s')
  show "page_inv s'"
    using a b c i1 loader_inv_cong [OF l'] by (simp add: page_inv_def)
qed

lemma cleanup_step:
  "\<exists>s'. cleanup c s = Inr s' \<and> loader_of s' = loader_of s \<and> reactions s' = reactions s
     \<and> console s' = console s \<and> ready s' = ready s \<and> divRef s' = divRef s"
  by (auto simp: cleanup_def purge_def split: option.splits)

lemma script_onload_step:
  assumes "page_inv s"
  shows "page_inv (script_onload e s)"
proof -
  have i: "loader_inv s"
    using assms by (simp add: page_inv_def)
  note f = script_onload_frame [of e s] and ph = script_onload_phase [OF i, of e]
  show ?thesis
    using assms script_onload_inv [OF i, of e] f ph
    by (auto simp: page_inv_def split: if_splits)
qed

lemma script_onerror_step:
  assumes "page_inv s"
  shows "page_inv (script_onerror s)"
proof -
  have i: "loader_inv s"
    using assms by (simp add: page_inv_def)
  note f = script_onerror_frame [of s] and ph = script_onerror_phase [OF i]
  show ?thesis
    using assms script_onerror_inv [OF i] f ph
    by (auto simp: page_inv_def split: if_splits)
qed

lemma step_inv:
  assumes "page_inv s" "step ev s = Inr s'"
  shows "page_inv s'"
proof (cases ev)
  case (Mount c name)
  let ?s0 = "s\<lparr>divRef := (divRef s)(c := Some c)\<rparr>"
  have i0: "page_inv ?s0"
    using assms(1) page_inv_frame [of ?s0 s] by simp
  show ?thesis
  proof (cases "falsy (lookup_chart name)")
    case True
    with Mount assms show ?thesis
      by simp
  next
    case False
    with Mount assms(2) have "effect c (lookup_chart name) ?s0 = Inr s'"
      by (simp add: Let_def)
    with i0 show ?thesis
      by (rule effect_step(1))
  qed
next
  case (Cleanup c)
  with assms(2) cleanup_step [of c s] have "loader_of s' = loader_of s"
    "reactions s' = reactions s" "console s' = console s" "ready s' = ready s"
    by auto
  then have "page_inv s' = page_inv s"
    by (rule page_inv_frame)
  with assms(1) show ?thesis
    by simp
next
  case (Detach c)
  with assms(2) have "s' = s\<lparr>divRef := (divRef s)(c := None)\<rparr>"
    by auto
  with assms(1) page_inv_frame [of s' s] show ?thesis
    by simp
next
  case (ScriptLoaded e)
  with assms show ?thesis
    by (auto simp: script_onload_step)
next
  case ScriptFailed
  with assms show ?thesis
    by (auto simp: script_onerror_step)
next
  case Tick
  with assms show ?thesis
    by (auto simp: tick_inv)
qed

lemma forward_refl: "forward s s"
  by (simp add: forward_def)

lemma forward_trans: "forward s s1 \<Longrightarrow> forward s1 s2 \<Longrightarrow> forward s s2"
  by (cases "phase s"; cases "phase s1"; cases "phase s2") (simp_all add: forward_def)

lemma forward_frame: "loader_of s' = loader_of s \<Longrightarrow> forward s s'"
  using phase_cong [of s' s] loader_of_fields [of s' s] by (simp add: forward_def)

lemma step_forward:
  assumes "page_inv s" "step ev s = Inr s'"
  shows "forward s s'"
proof (cases ev)
  case (Mount c name)
  let ?s0 = "s\<lparr>divRef := (divRef s)(c := Some c)\<rparr>"
  have i0: "page_inv ?s0"
    using assms(1) page_inv_frame [of ?s0 s] by simp
  have f0: "forward s ?s0"
    by (simp add: forward_frame)
  show ?thesis
  proof (cases "falsy (lookup_chart name)")
    case True
    with Mount assms(2) show ?thesis
      by (simp add: forward_refl)
  next
    case False
    with Mount assms(2) have e: "effect c (lookup_chart name) ?s0 = Inr s'"
      by (simp add: Let_def)
    from effect_step(2,3) [OF i0 e] have "forward ?s0 s'"
      by (cases "phase ?s0") (simp_all add: forward_def)
    with f0 show ?thesis
      by (rule forward_trans)
  qed
next
  case (Cleanup c)
  with assms(2) cleanup_step [of c s] have "loader_of s' = loader_of s"
    by auto
  then show ?thesis
    by (rule forward_frame)
next
  case (Detach c)
  with assms(2) have "loader_of s' = loader_of s"
    by auto
  then show ?thesis
    by (rule forward_frame)
next
  case (ScriptLoaded e)
  have "loader_inv s"
    using assms(1) by (simp add: page_inv_def)
  from script_onload_phase [OF this, of e] script_onload_frame [of e s] ScriptLoaded assms(2)
  show ?thesis
    by (cases "phase s") (auto simp: forward_def)
next
  case ScriptFailed
  have "loader_inv s"
    using assms(1) by (simp add: page_inv_def)
  from script_onerror_phase [OF this] script_onerror_frame [of s] ScriptFailed assms(2)
  show ?thesis
    by (cases "phase s") (auto simp: forward_def)
next
  case Tick
  with assms(2) have "loader_of s' = loader_of s"
    by (auto simp: tick_loader)
  then show ?thesis
    by (rule forward_frame)
qed

lemma run_inv_forward:
  "page_inv s \<Longrightarrow> run evs s = Inr s' \<Longrightarrow> page_inv s' \<and> forward s s'"
proof (induction evs arbitrary: s)
  case Nil
  then show ?case
    by (simp add: forward_refl)
next
  case (Cons ev evs)
  from Cons.prems(2) obtain s1 where
    st: "step ev s = Inr s1" and r: "run evs s1 = Inr s'"
    by (auto split: sum.splits)
  have i1: "page_inv s1"
    using Cons.prems(1) st by (rule step_inv)
  have f1: "forward s s1"
    using Cons.prems(1) st by (rule step_forward)
  from Cons.IH [OF i1 r] have "page_inv s'" and "forward s1 s'"
    by simp_all
  with f1 show ?case
    using forward_trans by blast
qed

lemma page_inv_init: "page_inv (init w)"
  by (simp add: page_inv_def loader_inv_init) (simp add: init_def phase_def)

text \<open>
  Only an effect can throw, and only for a name that is not a key of the registry: a
  run whose mounts all name charts of the registry never ends with an exception.
\<close>

lemma step_total:
  assumes "\<forall>c name. ev = Mount c name \<longrightarrow> name \<in> set chart_ids"
  shows "\<exists>s'. step ev s = Inr s'"
proof (cases ev)
  case (Mount c name)
  with assms have "name \<in> set chart_ids"
    by simp
  then obtain p where "lookup_chart name = Producer p"
    using lookup_chart_own by blast
  with Mount effect_producer [of c p "s\<lparr>divRef := (divRef s)(c := Some c)\<rparr>"] show ?thesis
    by (auto simp: falsy_def)
next
  case (Cleanup c)
  with cleanup_step [of c s] show ?thesis
    by auto
qed simp_all

lemma run_total:
  "\<forall>ev \<in> set evs. \<forall>c name. ev = Mount c name \<longrightarrow> name \<in> set chart_ids \<Longrightarrow>
     \<exists>s'. run evs s = Inr s'"
proof (induction evs arbitrary: s)
  case Nil
  then show ?case by simp
next
  case (Cons ev evs)
  from Cons.prems have "\<forall>c name. ev = Mount c name \<longrightarrow> name \<in> set chart_ids"
    by simp
  then obtain s1 where "step ev s = Inr s1"
    using step_total by blast
  moreover from Cons.prems have "\<exists>s'. run evs s1 = Inr s'"
    by (intro Cons.IH) simp
  ultimately show ?case
    by simp
qed


lemma failed_render:
  assumes "page_inv s" "phase s = LoadFailed" "name \<in> set chart_ids"
  shows "PlotlyChart_render s c name = Inr (ChartView True (JNum 0))"
proof -
  from lookup_chart_own [OF assms(3)] obtain p where "lookup_chart name = Producer p"
    by blast
  moreover have "\<not> ready s c"
    using assms(1,2) by (simp add: page_inv_def)
  ultimately show ?thesis
    by (simp add: PlotlyChart_render_def falsy_def)
qed

text \<open>
  C7. The engine-load state machine only moves forward. Between any two moments of
  a page's life the rank of the state does not decrease, so the machine never goes
  back to \<open>Unloaded\<close>; once \<open>Ready\<close> it stays \<open>Ready\<close>; at most one load is ever
  attempted. If the load fails, the state stays failed and no second load is attempted;
  no component ever becomes ready, so every chart keeps rendering the "Loading"
  placeholder; and the failure is logged: it has been logged already or a reaction
  that logs it at the next microtask checkpoint is registered.
\<close>

theorem engine_load_forward:
  assumes "run evs (init w) = Inr s" and "run evs' s = Inr s'"
  shows "rank (phase s) \<le> rank (phase s')
       \<and> (phase s \<noteq> Unloaded \<longrightarrow> phase s' \<noteq> Unloaded)
       \<and> (phase s = Ready \<longrightarrow> phase s' = Ready)
       \<and> fetches s' \<le> 1
       \<and> (phase s = LoadFailed \<longrightarrow>
            phase s' = LoadFailed \<and> fetches s' = fetches s
            \<and> (\<forall>c. \<not> ready s' c)
            \<and> (\<forall>c name. name \<in> set chart_ids \<longrightarrow>
                  PlotlyChart_render s' c name = Inr (ChartView True (JNum 0)))
            \<and> (reactions s' \<noteq> [] \<or> ''Plotly load failed:'' \<in> set (console s'))
            \<and> console (tick s') =
                console s' @ replicate (length (reactions s')) ''Plotly load failed:''
            \<and> ''Plotly load failed:'' \<in> set (console (tick s')))"
proof -
  from run_inv_forward [OF page_inv_init assms(1)] have i: "page_inv s"
    by simp
  from run_inv_forward [OF i assms(2)] have i': "page_inv s'" and f: "forward s s'"
    by simp_all
  have r: "rank (phase s) \<le> rank (phase s')"
    using f by (simp add: forward_def)
  then have u: "phase s \<noteq> Unloaded \<longrightarrow> phase s' \<noteq> Unloaded"
    by (cases "phase s") auto
  have rdy: "phase s = Ready \<longrightarrow> phase s' = Ready"
    using f by (simp add: forward_def)
  have "loader_inv s'"
    using i' by (simp add: page_inv_def)
  then have once: "fetches s' \<le> 1"
    by (rule loader_inv_fetches)
  have failed: "phase s' = LoadFailed \<and> fetches s' = fetches s
      \<and> (\<forall>c. \<not> ready s' c)
      \<and> (\<forall>c name. name \<in> set chart_ids \<longrightarrow>
            PlotlyChart_render s' c name = Inr (ChartView True (JNum 0)))
      \<and> (reactions s' \<noteq> [] \<or> ''Plotly load failed:'' \<in> set (console s'))
      \<and> console (tick s') =
          console s' @ replicate (length (reactions s')) ''Plotly load failed:''
      \<and> ''Plotly load failed:'' \<in> set (console (tick s'))"
    if lf: "phase s = LoadFailed"
  proof -
    from f lf have ph: "phase s' = LoadFailed" and fe: "fetches s' = fetches s"
      by (simp_all add: forward_def)
    from i' ph have nr: "\<forall>c. \<not> ready s' c"
      and lg: "reactions s' \<noteq> [] \<or> ''Plotly load failed:'' \<in> set (console s')"
      by (simp_all add: page_inv_def)
    have rn: "\<forall>c name. name \<in> set chart_ids \<longrightarrow>
        PlotlyChart_render s' c name = Inr (ChartView True (JNum 0))"
      using failed_render [OF i' ph] by blast
    have cn: "console (tick s') =
        console s' @ replicate (length (reactions s')) ''Plotly load failed:''"
      by (simp add: tick_failed [OF i' ph])
    have "''Plotly load failed:'' \<in> set (console (tick s'))"
      using lg unfolding cn by auto
    with ph fe nr rn lg cn show ?thesis
      by blast
  qed
  from r u rdy once failed show ?thesis
    by blast
qed

theorem engine_load_forward_witness:
  "\<exists>s s'. run [Mount 0 ''riemann-sum'', ScriptFailed] (init None) = Inr s
     \<and> run [Tick, Mount 1 ''black-scholes'', Tick] s = Inr s'
     \<and> phase s = LoadFailed \<and> phase s' = LoadFailed
     \<and> fetches s = 1 \<and> fetches s' = 1
     \<and> \<not> ready s' 1
     \<and> PlotlyChart_render s' 1 ''black-scholes'' = Inr (ChartView True (JNum 0))
     \<and> ''Plotly load failed:'' \<in> set (console (tick s'))"
proof -
  have names: "lookup_chart ''riemann-sum'' = Producer riemann_sum"
    "''black-scholes'' \<in> set chart_ids"
    by (simp_all add: lookup_chart_def CHARTS_def chart_ids_def)
  have "\<exists>s. run [Mount 0 ''riemann-sum'', ScriptFailed] (init None) = Inr s
      \<and> phase s = LoadFailed \<and> fetches s = 1"
    by (simp add: names falsy_def effect_def call_def_def loadPlotly_def new_promise_def
        init_def script_onerror_def settle_def phase_def state_of_def Let_def)
  then obtain s where s: "run [Mount 0 ''riemann-sum'', ScriptFailed] (init None) = Inr s"
    and ph: "phase s = LoadFailed" and fe: "fetches s = 1"
    by blast
  have "\<forall>ev \<in> set [Tick, Mount 1 ''black-scholes'', Tick].
      \<forall>c name. ev = Mount c name \<longrightarrow> name \<in> set chart_ids"
    using names(2) by simp
  then obtain s' where s': "run [Tick, Mount 1 ''black-scholes'', Tick] s = Inr s'"
    using run_total by blast
  note t = engine_load_forward [OF s s']
  from t ph have "phase s' = LoadFailed" "fetches s' = fetches s" "\<not> ready s' 1"
    "''Plotly load failed:'' \<in> set (console (tick s'))"
    by blast+
  moreover from t ph names(2)
  have "PlotlyChart_render s' 1 ''black-scholes'' = Inr (ChartView True (JNum 0))"
    by blast
  ultimately show ?thesis
    using s s' ph fe by (intro exI [of _ s] exI [of _ s']) simp
qed

subsection \<open>Cleanup and late mounts are safe\<close>

text \<open>
  C8. The cleanup is safe on a container that never completed a mount: when the
  container handle is absent or the engine was never loaded it changes nothing and
  throws nothing, and it never throws in any state. A mount that is still pending when
  the container is gone becomes a no-op: the \<^verbatim>\<open>then\<close> callback returns at once, and the
  reaction is dropped without drawing, marking ready, or logging. Removing a container
  and running its cleanup, in either order and at any moment, also before the load
  completes, never ends the run with an exception.
\<close>

theorem cleanup_safe:
  "(divRef s c = None \<or> windowPlotly s = None \<longrightarrow> cleanup c s = Inr s)
   \<and> (\<exists>s'. cleanup c s = Inr s')
   \<and> (divRef s (rcomp r) = None \<longrightarrow> on_fulfilled r s = Inr s)
   \<and> (\<forall>e. divRef s (rcomp r) = None \<and> state_of s (rpromise r) = Fulfilled e \<longrightarrow>
          react r s = s)
   \<and> (\<exists>s'. step (Detach c) s = Inr s' \<and> divRef s' c = None)
   \<and> ((\<forall>ev \<in> set evs. \<forall>c name. ev = Mount c name \<longrightarrow> name \<in> set chart_ids) \<longrightarrow>
        (\<exists>s'. run evs s = Inr s'))"
proof (intro conjI impI allI)
  show "cleanup c s = Inr s" if "divRef s c = None \<or> windowPlotly s = None"
    using that by (auto simp: cleanup_def split: option.splits)
  show "\<exists>s'. cleanup c s = Inr s'"
    using cleanup_step [of c s] by blast
  show "on_fulfilled r s = Inr s" if "divRef s (rcomp r) = None"
    using that by (simp add: on_fulfilled_def)
  show "react r s = s"
    if "divRef s (rcomp r) = None \<and> state_of s (rpromise r) = Fulfilled e" for e
    using that by (simp add: react_def on_fulfilled_def)
  show "\<exists>s'. step (Detach c) s = Inr s' \<and> divRef s' c = None"
    by simp
  show "\<exists>s'. run evs s = Inr s'"
    if "\<forall>ev \<in> set evs. \<forall>c name. ev = Mount c name \<longrightarrow> name \<in> set chart_ids"
    using that by (rule run_total)
qed

theorem cleanup_safe_witness:
  "divRef (init None) 0 = None
   \<and> cleanup 0 (init None) = Inr (init None)
   \<and> on_fulfilled \<lparr>rpromise = 0, rcomp = 0, rdata = None, rlayout = None\<rparr> (init None)
       = Inr (init None)
   \<and> (\<exists>s'. run [Mount 0 ''helix-tangent'', Detach 0, Cleanup 0, ScriptLoaded 1, Tick]
               (init None) = Inr s'
          \<and> drawn s' 0 = None \<and> \<not> ready s' 0 \<and> console s' = [] \<and> reactions s' = [])"
proof -
  let ?r = "\<lparr>rpromise = 0, rcomp = 0, rdata = None, rlayout = None\<rparr>"
  let ?evs = "[Mount 0 ''helix-tangent'', Detach 0, Cleanup 0, ScriptLoaded 1, Tick]"
  have d: "divRef (init None) 0 = None"
    by (simp add: init_def)
  have d': "divRef (init None) (rcomp ?r) = None"
    by (simp add: init_def)
  have n: "lookup_chart ''helix-tangent'' = Producer helix_tangent"
    "''helix-tangent'' \<in> set chart_ids"
    by (simp_all add: lookup_chart_def CHARTS_def chart_ids_def)
  then have m: "\<forall>ev \<in> set ?evs. \<forall>c name. ev = Mount c name \<longrightarrow> name \<in> set chart_ids"
    by simp
  note t = cleanup_safe [of "init None" 0 ?r ?evs]
  from t d have a: "cleanup 0 (init None) = Inr (init None)"
    by blast
  from t d' have b: "on_fulfilled ?r (init None) = Inr (init None)"
    by blast
  from t m obtain s' where s': "run ?evs (init None) = Inr s'"
    by blast
  then have "drawn s' 0 = None \<and> \<not> ready s' 0 \<and> console s' = [] \<and> reactions s' = []"
    by (auto simp: n falsy_def effect_def call_def_def loadPlotly_def new_promise_def
        init_def cleanup_def script_onload_def settle_def tick_def react_def state_of_def
        on_fulfilled_def Let_def)
  with d a b s' show ?thesis
    by blast
qed


end
